theory Spec2Isabelle
  imports Main
begin

section \<open>The SERP tracker: data model\<close>

text \<open>
  The development follows \<^verbatim>\<open>lib/serp-tracker.js\<close> (class \<^verbatim>\<open>SERPTracker\<close>) and the tables and
  views of \<^verbatim>\<open>database/schema.sql\<close> that the class reads and writes. The PostgreSQL
  database is part of the tracker's state: every table is the list of its rows in
  insertion order, a nullable column is an \<open>option\<close> (\<open>None\<close> is SQL's NULL), and
  a SERIAL key is drawn from a counter that only grows.

  Time is the field \<open>clock\<close>, in milliseconds since the epoch: \<^verbatim>\<open>Date.now()\<close>,
  \<^verbatim>\<open>new Date()\<close> and SQL's \<^verbatim>\<open>NOW()\<close> read it, \<^verbatim>\<open>sleep\<close> advances it, and a caller
  moves it between two invocations. A DATE is a day number, \<open>clock div 86400000\<close>, which
  is what the first ten characters of \<^verbatim>\<open>toISOString()\<close> denote.
\<close>

subsection \<open>Errors and results\<close>

datatype error =
    ProviderError string   \<comment> \<open>thrown by \<^verbatim>\<open>fetchPositionFromDataForSEO\<close>\<close>
  | TypeError string       \<comment> \<open>a property read on \<^verbatim>\<open>undefined\<close>\<close>
  | StorageError string    \<comment> \<open>a constraint of the schema rejected a statement\<close>

fun message :: "error \<Rightarrow> string" where
  "message (ProviderError m) = m"
| "message (TypeError m) = m"
| "message (StorageError m) = m"

subsection \<open>Values of the configuration file\<close>

datatype jsval = JUndefined | JNull | JBool bool | JNum int | JStr string

fun truthy :: "jsval \<Rightarrow> bool" where
  "truthy JUndefined = False"
| "truthy JNull = False"
| "truthy (JBool b) = b"
| "truthy (JNum n) = (n \<noteq> 0)"
| "truthy (JStr s) = (s \<noteq> [])"

text \<open>\<^verbatim>\<open>x || null\<close> for a number that may be absent: zero is falsy.\<close>

definition or_null :: "int option \<Rightarrow> int option" where
  "or_null x = (case x of None \<Rightarrow> None | Some n \<Rightarrow> if n = 0 then None else Some n)"

record kw_config =
  kw_keyword :: string
  kw_searchVolume :: "int option"
  kw_targetPosition :: "int option"
  kw_trackingFrequency :: jsval

record location_config =
  loc_code :: "int option"
  loc_name :: "string option"

record project_config =
  proj_name :: string
  proj_location :: "location_config option"
  proj_keywords :: "(string \<times> kw_config list) list"
    \<comment> \<open>\<^verbatim>\<open>Object.entries(projectData.keywords)\<close>: priority and its keywords, in key order\<close>

record default_settings =
  ds_locationCode :: int
  ds_locationName :: string
  ds_device :: string

record alert_thresholds =
  critical_positionDrop :: int
  warning_positionDrop :: int
  opportunity_enterTopN :: int

record api_limits =
  batchSize :: int
  delayBetweenBatches :: int

record config =
  projects :: "(string \<times> project_config) list"
  defaultSettings :: default_settings
  alertThresholds :: alert_thresholds
  apiLimits :: "api_limits option"
    \<comment> \<open>\<^verbatim>\<open>config.apiLimits.dataForSEO\<close>; \<open>None\<close> when the file has no such section\<close>

subsection \<open>Rows of the tables\<close>

record tracked_keyword =
  tk_id :: nat
  tk_keyword :: string
  tk_project_id :: string
  tk_project_name :: "string option"
  tk_priority :: "string option"
  tk_search_volume :: "int option"
  tk_target_position :: "int option"
  tk_tracking_frequency :: "string option"
  tk_location_code :: "int option"
  tk_location_name :: "string option"
  tk_device :: "string option"
  tk_is_active :: "bool option"
  tk_created_at :: int
  tk_updated_at :: int

record position_row =
  ph_id :: nat
  ph_keyword_id :: nat
  ph_position :: "int option"
  ph_url :: "string option"
  ph_date :: int
  ph_device :: "string option"
  ph_location :: "string option"
  ph_serp_features :: "string list"
  ph_data_source :: string
  ph_raw_data :: string
  ph_created_at :: int

datatype alert_type = Critical | Warning | Opportunity | Competitor

record alert_row =
  al_id :: nat
  al_keyword_id :: nat
  al_alert_type :: alert_type
  al_position_change :: "int option"
  al_old_position :: "int option"
  al_new_position :: "int option"
  al_message :: string
  al_is_read :: bool
  al_triggered_at :: int

datatype sync_status = Running | Completed | Failed

text \<open>
  A row of \<^verbatim>\<open>sync_log\<close>. The column \<^verbatim>\<open>duration_seconds\<close> (the difference of the two
  timestamps, which are both kept) is left out; \<open>sl_errors\<close> holds the entries of the
  JSON array: batch number and message.
\<close>

record sync_row =
  sl_id :: nat
  sl_sync_type :: string
  sl_project_id :: "string option"
  sl_keywords_processed :: nat
  sl_keywords_success :: "nat option"
  sl_keywords_failed :: "nat option"
  sl_errors :: "(int \<times> string) list option"
  sl_started_at :: int
  sl_completed_at :: "int option"
  sl_status :: sync_status

subsection \<open>The tracker object\<close>

record position_data =
  pd_position :: "int option"
  pd_url :: "string option"
  pd_serpFeatures :: "string list"
  pd_rawData :: string

record cache_entry =
  ce_data :: position_data
  ce_timestamp :: int

record stats =
  keywordsTracked :: nat
  positionsUpdated :: nat
  alertsGenerated :: nat
  apiCallsMade :: nat
  stat_errors :: "(string \<times> string) list"

record tracker =
  config :: config
  cache :: "string \<rightharpoonup> cache_entry"
  cacheTimeout :: int
  stats :: stats
  clock :: int
  tracked_keywords :: "tracked_keyword list"
  tracked_keywords_seq :: nat
  position_history :: "position_row list"
  position_history_seq :: nat
  tracking_alerts :: "alert_row list"
  tracking_alerts_seq :: nat
  sync_log :: "sync_row list"
  sync_log_seq :: nat

text \<open>
  The ranking provider is outside the program: the HTTP call and the parsing of its answer
  in \<^verbatim>\<open>fetchPositionFromDataForSEO\<close> are one oracle, asked with the number of the call
  (so that its answers may change over time), the keyword, the location code and the
  device. It answers with an observation or with the error the call throws.
\<close>

type_synonym provider = "nat \<Rightarrow> string \<Rightarrow> int option \<Rightarrow> string option \<Rightarrow> error + position_data"

text \<open>SQL's \<open>=\<close> on nullable columns: NULL equals nothing, not even NULL.\<close>

definition sql_eq :: "'a option \<Rightarrow> 'a option \<Rightarrow> bool" where
  "sql_eq a b = (case (a, b) of (Some x, Some y) \<Rightarrow> x = y | _ \<Rightarrow> False)"

definition today :: "tracker \<Rightarrow> int" where
  "today st = clock st div 86400000"

section \<open>Repository: position history\<close>

text \<open>
  \<^verbatim>\<open>ORDER BY date DESC LIMIT 1\<close>: a row of the greatest date. SQL leaves the choice among
  rows of the same date open; the model takes the one inserted first.
\<close>

fun newest :: "position_row list \<Rightarrow> position_row option" where
  "newest [] = None"
| "newest (r # rs) =
     (case newest rs of
        None \<Rightarrow> Some r
      | Some m \<Rightarrow> if ph_date r < ph_date m then Some m else Some r)"

text \<open>
  The arbiter of \<^verbatim>\<open>ON CONFLICT (keyword_id, date, device, location, data_source)\<close> is the
  table's UNIQUE constraint. Its columns \<^verbatim>\<open>device\<close> and \<^verbatim>\<open>location\<close> are nullable, and
  a unique index holds two rows apart as soon as one of them is NULL in such a column.
\<close>

definition ph_conflict :: "position_row \<Rightarrow> position_row \<Rightarrow> bool" where
  "ph_conflict new old =
     (ph_keyword_id old = ph_keyword_id new \<and> ph_date old = ph_date new \<and>
      sql_eq (ph_device old) (ph_device new) \<and>
      sql_eq (ph_location old) (ph_location new) \<and>
      ph_data_source old = ph_data_source new)"

text \<open>
  \<^verbatim>\<open>savePosition(keywordId, positionData)\<close>. The INSERT names eight columns; \<^verbatim>\<open>location\<close>
  is not among them and has no default, so the new row's location is NULL. The device is
  \<^verbatim>\<open>this.config.defaultSettings.device\<close>. The row's key is drawn from the sequence before
  any constraint is checked. \<^verbatim>\<open>keyword_id\<close> references \<^verbatim>\<open>tracked_keywords(id)\<close>: a key
  with no such row makes the statement fail, and \<^verbatim>\<open>savePosition\<close> throws.
\<close>

definition savePosition ::
  "nat \<Rightarrow> position_data \<Rightarrow> tracker \<Rightarrow> tracker \<times> (error + (int option \<times> int option))" where
  "savePosition keywordId positionData st =
     (let prevResult = newest (filter (\<lambda>r. ph_keyword_id r = keywordId) (position_history st));
          previousPosition = or_null (case prevResult of None \<Rightarrow> None | Some r \<Rightarrow> ph_position r);
          new = \<lparr>ph_id = position_history_seq st + 1,
                 ph_keyword_id = keywordId,
                 ph_position = pd_position positionData,
                 ph_url = pd_url positionData,
                 ph_date = today st,
                 ph_device = Some (ds_device (defaultSettings (config st))),
                 ph_location = None,
                 ph_serp_features = pd_serpFeatures positionData,
                 ph_data_source = ''dataforseo'',
                 ph_raw_data = pd_rawData positionData,
                 ph_created_at = clock st\<rparr>;
          st1 = st\<lparr>position_history_seq := position_history_seq st + 1\<rparr>
      in if \<not> list_ex (\<lambda>k. tk_id k = keywordId) (tracked_keywords st1)
         then (st1, Inl (StorageError ''violates foreign key constraint''))
         else
           let st2 =
                 (if list_ex (ph_conflict new) (position_history st1)
                  then st1\<lparr>position_history :=
                         map (\<lambda>r. if ph_conflict new r
                                   then r\<lparr>ph_position := ph_position new,
                                          ph_url := ph_url new,
                                          ph_serp_features := ph_serp_features new,
                                          ph_raw_data := ph_raw_data new\<rparr>
                                   else r)
                             (position_history st1)\<rparr>
                  else st1\<lparr>position_history := position_history st1 @ [new]\<rparr>);
               st3 = st2\<lparr>tracked_keywords :=
                         map (\<lambda>k. if tk_id k = keywordId then k\<lparr>tk_updated_at := clock st2\<rparr> else k)
                             (tracked_keywords st2)\<rparr>
           in (st3, Inr (previousPosition, pd_position positionData)))"

section \<open>PositionCache and ProviderClient\<close>

text \<open>Decimal digits of a number, as a template string prints it.\<close>

definition digit_char :: "nat \<Rightarrow> char" where
  "digit_char d = ''0123456789'' ! d"

function decimal :: "nat \<Rightarrow> string" where
  "decimal n = (if 10 \<le> n then decimal (n div 10) else []) @ [digit_char (n mod 10)]"
  by pat_completeness auto
termination
  by (relation "measure id") auto

definition number_string :: "int \<Rightarrow> string" where
  "number_string i = (if 0 \<le> i then decimal (nat i) else CHR ''-'' # decimal (nat (- i)))"

text \<open>
  The key \<^verbatim>\<open>`${keyword.keyword}:${keyword.location_code}:${keyword.device}`\<close>; a NULL column
  reads as \<^verbatim>\<open>null\<close> in the row object and prints as such.
\<close>

definition cacheKey :: "tracked_keyword \<Rightarrow> string" where
  "cacheKey k =
     tk_keyword k @ '':'' @
     (case tk_location_code k of None \<Rightarrow> ''null'' | Some c \<Rightarrow> number_string c) @ '':'' @
     (case tk_device k of None \<Rightarrow> ''null'' | Some d \<Rightarrow> d)"

text \<open>
  \<^verbatim>\<open>fetchPositionFromDataForSEO\<close>: counts the call in \<^verbatim>\<open>stats.apiCallsMade\<close>, then asks the
  provider. Its own \<^verbatim>\<open>catch\<close> logs and throws the error again.
\<close>

definition fetchPositionFromDataForSEO ::
  "provider \<Rightarrow> string \<Rightarrow> int option \<Rightarrow> string option \<Rightarrow> tracker \<Rightarrow> tracker \<times> (error + position_data)" where
  "fetchPositionFromDataForSEO P kw locationCode device st =
     (let st1 = st\<lparr>stats := (stats st)\<lparr>apiCallsMade := apiCallsMade (stats st) + 1\<rparr>\<rparr>
      in (st1, P (apiCallsMade (stats st1)) kw locationCode device))"

section \<open>BatchScheduler\<close>

text \<open>
  The body of the \<^verbatim>\<open>try\<close> block of \<^verbatim>\<open>trackKeywordBatch\<close>, for one keyword: a cache entry
  younger than \<^verbatim>\<open>cacheTimeout\<close> is saved without asking the provider; otherwise the
  provider is asked, its answer is cached with the time of the call and saved, and
  \<^verbatim>\<open>stats.positionsUpdated\<close> is counted.
\<close>

definition trackKeyword_try :: "provider \<Rightarrow> tracked_keyword \<Rightarrow> tracker \<Rightarrow> tracker \<times> (error + unit)" where
  "trackKeyword_try P k st =
     (let key = cacheKey k;
          hit = (case cache st key of
                   None \<Rightarrow> None
                 | Some cached \<Rightarrow>
                     if clock st - ce_timestamp cached < cacheTimeout st then Some cached else None)
      in case hit of
           Some cached \<Rightarrow>
             (case savePosition (tk_id k) (ce_data cached) st of
                (st1, Inl e) \<Rightarrow> (st1, Inl e)
              | (st1, Inr _) \<Rightarrow> (st1, Inr ()))
         | None \<Rightarrow>
             (case fetchPositionFromDataForSEO P (tk_keyword k) (tk_location_code k) (tk_device k) st of
                (st1, Inl e) \<Rightarrow> (st1, Inl e)
              | (st1, Inr pos) \<Rightarrow>
                  let st2 = st1\<lparr>cache := (cache st1)(key \<mapsto> \<lparr>ce_data = pos, ce_timestamp = clock st1\<rparr>)\<rparr>
                  in (case savePosition (tk_id k) pos st2 of
                        (st3, Inl e) \<Rightarrow> (st3, Inl e)
                      | (st3, Inr _) \<Rightarrow>
                          (st3\<lparr>stats := (stats st3)\<lparr>positionsUpdated := positionsUpdated (stats st3) + 1\<rparr>\<rparr>,
                           Inr ()))))"

text \<open>
  One turn of the loop of \<^verbatim>\<open>trackKeywordBatch\<close>: the \<^verbatim>\<open>catch\<close> records the keyword and
  the message in \<^verbatim>\<open>stats.errors\<close> and the loop goes on.
\<close>

definition trackKeyword :: "provider \<Rightarrow> tracked_keyword \<Rightarrow> tracker \<Rightarrow> tracker" where
  "trackKeyword P k st =
     (case trackKeyword_try P k st of
        (st1, Inr _) \<Rightarrow> st1
      | (st1, Inl e) \<Rightarrow>
          st1\<lparr>stats := (stats st1)\<lparr>stat_errors := stat_errors (stats st1) @ [(tk_keyword k, message e)]\<rparr>\<rparr>)"

fun trackKeywordBatch :: "provider \<Rightarrow> tracked_keyword list \<Rightarrow> tracker \<Rightarrow> tracker \<times> (error + unit)" where
  "trackKeywordBatch P [] st = (st, Inr ())"
| "trackKeywordBatch P (k # ks) st = trackKeywordBatch P ks (trackKeyword P k st)"

text \<open>
  \<^verbatim>\<open>getKeywordsToTrack(priority, projectId)\<close>: the active rows, of the priority and of the
  project when these are given (an empty string and \<^verbatim>\<open>null\<close> are falsy and add no
  condition), \<^verbatim>\<open>ORDER BY priority DESC, search_volume DESC\<close>. A descending order puts
  NULL first; the CHECK constraint leaves \<^verbatim>\<open>medium\<close>, \<^verbatim>\<open>low\<close> and \<^verbatim>\<open>high\<close> as the only
  priorities, in this descending order. Rows that the ORDER BY does not tell apart stay in
  table order.
\<close>

definition priority_rank :: "string option \<Rightarrow> nat" where
  "priority_rank p =
     (if p = None then 0 else if p = Some ''medium'' then 1 else if p = Some ''low'' then 2 else 3)"

definition order_by_search_volume_desc :: "tracked_keyword list \<Rightarrow> tracked_keyword list" where
  "order_by_search_volume_desc rows =
     filter (\<lambda>k. tk_search_volume k = None) rows @
     sort_key (\<lambda>k. - the (tk_search_volume k)) (filter (\<lambda>k. tk_search_volume k \<noteq> None) rows)"

definition getKeywordsToTrack :: "string \<Rightarrow> string option \<Rightarrow> tracker \<Rightarrow> tracked_keyword list" where
  "getKeywordsToTrack priority projectId st =
     (let rows0 = filter (\<lambda>k. tk_is_active k = Some True) (tracked_keywords st);
          rows1 = (if priority \<noteq> [] then filter (\<lambda>k. sql_eq (tk_priority k) (Some priority)) rows0
                   else rows0);
          rows2 = (case projectId of
                     None \<Rightarrow> rows1
                   | Some pid \<Rightarrow> if pid \<noteq> [] then filter (\<lambda>k. tk_project_id k = pid) rows1 else rows1)
      in sort_key (\<lambda>k. priority_rank (tk_priority k)) (order_by_search_volume_desc rows2))"

text \<open>\<^verbatim>\<open>createSyncLog\<close>: a new row of \<^verbatim>\<open>sync_log\<close> with status \<^verbatim>\<open>running\<close>; returns its id.\<close>

definition createSyncLog :: "string \<Rightarrow> string option \<Rightarrow> nat \<Rightarrow> tracker \<Rightarrow> tracker \<times> nat" where
  "createSyncLog syncType projectId keywordsCount st =
     (let new = \<lparr>sl_id = sync_log_seq st + 1,
                 sl_sync_type = syncType,
                 sl_project_id = projectId,
                 sl_keywords_processed = keywordsCount,
                 sl_keywords_success = None,
                 sl_keywords_failed = None,
                 sl_errors = None,
                 sl_started_at = clock st,
                 sl_completed_at = None,
                 sl_status = Running\<rparr>
      in (st\<lparr>sync_log := sync_log st @ [new], sync_log_seq := sync_log_seq st + 1\<rparr>, sl_id new))"

text \<open>
  \<^verbatim>\<open>completeSyncLog\<close>: the UPDATE of the row of that id. The status parameter is
  \<^verbatim>\<open>errors.length > 0 ? 'completed' : 'completed'\<close>.
\<close>

definition completeSyncLog :: "nat \<Rightarrow> nat \<Rightarrow> nat \<Rightarrow> (int \<times> string) list \<Rightarrow> tracker \<Rightarrow> tracker" where
  "completeSyncLog logId succ fl errs st =
     st\<lparr>sync_log :=
          map (\<lambda>r. if sl_id r = logId
                    then r\<lparr>sl_keywords_success := Some succ,
                           sl_keywords_failed := Some fl,
                           sl_errors := Some errs,
                           sl_completed_at := Some (clock st),
                           sl_status := (if length errs > 0 then Completed else Completed)\<rparr>
                    else r)
              (sync_log st)\<rparr>"

definition sleep :: "int \<Rightarrow> tracker \<Rightarrow> tracker" where
  "sleep ms st = st\<lparr>clock := clock st + max ms 0\<rparr>"

text \<open>\<^verbatim>\<open>Array.prototype.slice(start, end)\<close>: a negative index counts from the end.\<close>

definition js_slice :: "'a list \<Rightarrow> int \<Rightarrow> int \<Rightarrow> 'a list" where
  "js_slice xs start fin =
     (let len = int (length xs);
          k = (if start < 0 then max (len + start) 0 else min start len);
          e = (if fin < 0 then max (len + fin) 0 else min fin len)
      in take (nat (e - k)) (drop (nat k) xs))"

record results =
  success :: nat
  failed :: nat
  errors :: "(int \<times> string) list"

text \<open>
  The loop \<^verbatim>\<open>for (let i = 0; i < keywords.length; i += batchSize)\<close> of
  \<^verbatim>\<open>trackKeywordsByPriority\<close>, from the index \<open>i\<close> on. With a batch size that is not
  positive the index never passes the length and the loop does not end: the result
  \<open>None\<close>. The \<^verbatim>\<open>try\<close> around the batch adds its length to \<^verbatim>\<open>results.success\<close>; the
  \<^verbatim>\<open>catch\<close> adds it to \<^verbatim>\<open>results.failed\<close> and records the batch number
  \<^verbatim>\<open>Math.floor(i/batchSize) + 1\<close> with the message.
\<close>

partial_function (option) track_batches ::
  "provider \<Rightarrow> api_limits \<Rightarrow> tracked_keyword list \<Rightarrow> int \<Rightarrow> tracker \<Rightarrow> results \<Rightarrow> (tracker \<times> results) option" where
  "track_batches P lim kws i st res =
     (if i < int (length kws)
      then
        (let batch = js_slice kws i (i + batchSize lim);
             tb = trackKeywordBatch P batch st;
             res1 = (case snd tb of
                       Inr _ \<Rightarrow> res\<lparr>success := success res + length batch\<rparr>
                     | Inl e \<Rightarrow> res\<lparr>failed := failed res + length batch,
                                     errors := errors res @ [(i div batchSize lim + 1, message e)]\<rparr>);
             st2 = (if i + batchSize lim < int (length kws)
                    then sleep (delayBetweenBatches lim) (fst tb) else fst tb)
         in track_batches P lim kws (i + batchSize lim) st2 res1)
      else Some (st, res))"

declare track_batches.simps [code]

section \<open>AlertEngine\<close>

datatype trend = Improved | Declined | Stable

record change_row =
  ch_id :: nat
  ch_keyword :: string
  ch_project_id :: string
  ch_current_position :: "int option"
  ch_current_date :: "int option"
  ch_previous_position :: "int option"
  ch_previous_date :: "int option"
  ch_position_change :: "int option"
  ch_trend :: trend

text \<open>SQL's subtraction: NULL when an operand is NULL.\<close>

definition sql_minus :: "int option \<Rightarrow> int option \<Rightarrow> int option" where
  "sql_minus a b = (case (a, b) of (Some x, Some y) \<Rightarrow> Some (x - y) | _ \<Rightarrow> None)"

text \<open>
  The view \<^verbatim>\<open>v_position_changes_7d\<close>: one row for every active keyword, joined (LEFT JOIN
  LATERAL) with its newest row of \<^verbatim>\<open>position_history\<close> and with its newest row dated
  at least seven days before that one. A CASE whose conditions are NULL takes its ELSE.
\<close>

definition v_position_changes_7d_row :: "position_row list \<Rightarrow> tracked_keyword \<Rightarrow> change_row" where
  "v_position_changes_7d_row history tk =
     (let hist = filter (\<lambda>r. ph_keyword_id r = tk_id tk) history;
          current_pos = newest hist;
          prev_pos = (case current_pos of
                        None \<Rightarrow> None
                      | Some c \<Rightarrow> newest (filter (\<lambda>r. ph_date r \<le> ph_date c - 7) hist));
          cur = (case current_pos of None \<Rightarrow> None | Some c \<Rightarrow> ph_position c);
          prv = (case prev_pos of None \<Rightarrow> None | Some p \<Rightarrow> ph_position p);
          diff = sql_minus cur prv
      in \<lparr>ch_id = tk_id tk,
          ch_keyword = tk_keyword tk,
          ch_project_id = tk_project_id tk,
          ch_current_position = cur,
          ch_current_date = map_option ph_date current_pos,
          ch_previous_position = prv,
          ch_previous_date = map_option ph_date prev_pos,
          ch_position_change = diff,
          ch_trend = (case diff of
                        None \<Rightarrow> Stable
                      | Some d \<Rightarrow> if d < 0 then Improved else if d > 0 then Declined else Stable)\<rparr>)"

definition v_position_changes_7d :: "tracker \<Rightarrow> change_row list" where
  "v_position_changes_7d st =
     map (v_position_changes_7d_row (position_history st))
       (filter (\<lambda>tk. tk_is_active tk = Some True) (tracked_keywords st))"

text \<open>
  The query of \<^verbatim>\<open>generateAlerts\<close>, \<^verbatim>\<open>SELECT * FROM v_position_changes_7d WHERE id = $1\<close>,
  and its \<^verbatim>\<open>rows[0]\<close>; \<open>None\<close> when there is no row.
\<close>

definition query_position_change :: "nat \<Rightarrow> tracker \<Rightarrow> change_row option" where
  "query_position_change keywordId st =
     (case filter (\<lambda>c. ch_id c = keywordId) (v_position_changes_7d st) of
        [] \<Rightarrow> None
      | change # _ \<Rightarrow> Some change)"

text \<open>A relational operator of JavaScript reads \<^verbatim>\<open>null\<close> as the number 0.\<close>

definition js_num :: "int option \<Rightarrow> int" where
  "js_num x = (case x of None \<Rightarrow> 0 | Some n \<Rightarrow> n)"

text \<open>The \<^verbatim>\<open>if / else if / else if\<close> of \<^verbatim>\<open>generateAlerts\<close>.\<close>

definition alert_rule :: "alert_thresholds \<Rightarrow> change_row \<Rightarrow> alert_type option" where
  "alert_rule th change =
     (let positionChange = ch_position_change change
      in if js_num positionChange \<ge> critical_positionDrop th then Some Critical
         else if js_num positionChange \<ge> warning_positionDrop th then Some Warning
         else if js_num (ch_current_position change) \<le> opportunity_enterTopN th \<and>
                 js_num (ch_previous_position change) > opportunity_enterTopN th then Some Opportunity
         else None)"

text \<open>The message templates of \<^verbatim>\<open>createAlert\<close>, without their leading pictograph.\<close>

definition alert_message :: "alert_thresholds \<Rightarrow> alert_type \<Rightarrow> int option \<Rightarrow> string" where
  "alert_message th alertType positionChange =
     (case alertType of
        Critical \<Rightarrow> ''Critical: Position dropped '' @ number_string (abs (js_num positionChange)) @ '' places''
      | Warning \<Rightarrow> ''Warning: Position dropped '' @ number_string (abs (js_num positionChange)) @ '' places''
      | Opportunity \<Rightarrow> ''Opportunity: Keyword entered top '' @ number_string (opportunity_enterTopN th)
      | Competitor \<Rightarrow> ''Competitor alert: New competitor in top 3'')"

definition createAlert :: "nat \<Rightarrow> alert_type \<Rightarrow> int option \<Rightarrow> change_row \<Rightarrow> tracker \<Rightarrow> tracker" where
  "createAlert keywordId alertType positionChange changeData st =
     st\<lparr>tracking_alerts := tracking_alerts st @
           [\<lparr>al_id = tracking_alerts_seq st + 1,
             al_keyword_id = keywordId,
             al_alert_type = alertType,
             al_position_change = positionChange,
             al_old_position = ch_previous_position changeData,
             al_new_position = ch_current_position changeData,
             al_message = alert_message (alertThresholds (config st)) alertType positionChange,
             al_is_read = False,
             al_triggered_at = clock st\<rparr>],
        tracking_alerts_seq := tracking_alerts_seq st + 1\<rparr>"

text \<open>
  The loop of \<^verbatim>\<open>generateAlerts\<close> over the keyword ids, with the counter
  \<^verbatim>\<open>alertsCreated\<close>, and the function itself, which adds the counter to
  \<^verbatim>\<open>stats.alertsGenerated\<close> when it is positive.
\<close>

fun generateAlerts_loop :: "nat list \<Rightarrow> tracker \<Rightarrow> nat \<Rightarrow> tracker \<times> nat" where
  "generateAlerts_loop [] st alertsCreated = (st, alertsCreated)"
| "generateAlerts_loop (keywordId # ids) st alertsCreated =
     (case query_position_change keywordId st of
        None \<Rightarrow> generateAlerts_loop ids st alertsCreated
      | Some change \<Rightarrow>
          (case alert_rule (alertThresholds (config st)) change of
             None \<Rightarrow> generateAlerts_loop ids st alertsCreated
           | Some alertType \<Rightarrow>
               generateAlerts_loop ids
                 (createAlert keywordId alertType (ch_position_change change) change st)
                 (alertsCreated + 1)))"

definition generateAlerts :: "nat list \<Rightarrow> tracker \<Rightarrow> tracker \<times> nat" where
  "generateAlerts keywordIds st =
     (case generateAlerts_loop keywordIds st 0 of
        (st1, alertsCreated) \<Rightarrow>
          (if alertsCreated > 0
           then st1\<lparr>stats := (stats st1)\<lparr>alertsGenerated := alertsGenerated (stats st1) + alertsCreated\<rparr>\<rparr>
           else st1,
           alertsCreated))"

section \<open>One tracking invocation\<close>

text \<open>
  \<^verbatim>\<open>trackKeywordsByPriority(priority, projectId)\<close>. The result is \<open>None\<close> when the
  invocation does not end, and otherwise the tracker it leaves with the value it returns
  or the error it throws; its outer \<^verbatim>\<open>catch\<close> logs the error and throws it again. The
  early return for an empty list is \<^verbatim>\<open>{ success: 0, failed: 0 }\<close>, with no errors
  property, for which the model has the empty list. The batch size is read from
  \<^verbatim>\<open>this.config.apiLimits.dataForSEO\<close> after the sync log row is created: without that
  section the read throws a TypeError.
\<close>

definition trackKeywordsByPriority ::
  "provider \<Rightarrow> string \<Rightarrow> string option \<Rightarrow> tracker \<Rightarrow> (tracker \<times> (error + results)) option" where
  "trackKeywordsByPriority P priority projectId st =
     (let kws = getKeywordsToTrack priority projectId st
      in if length kws = 0 then Some (st, Inr \<lparr>success = 0, failed = 0, errors = []\<rparr>)
         else
           (case createSyncLog ''dataforseo'' projectId (length kws) st of
              (st1, syncLogId) \<Rightarrow>
                (case apiLimits (config st1) of
                   None \<Rightarrow> Some (st1, Inl (TypeError ''Cannot read properties of undefined''))
                 | Some lim \<Rightarrow>
                     (case track_batches P lim kws 0 st1 \<lparr>success = 0, failed = 0, errors = []\<rparr> of
                        None \<Rightarrow> None
                      | Some (st2, res) \<Rightarrow>
                          let st3 = completeSyncLog syncLogId (success res) (failed res) (errors res) st2;
                              st4 = fst (generateAlerts (map tk_id kws) st3)
                          in Some (st4, Inr res)))))"

section \<open>Repository: tracked keywords\<close>

text \<open>
  The parameters of the INSERT of \<^verbatim>\<open>importKeywordsFromConfig\<close>, \<^verbatim>\<open>$1\<close> to \<^verbatim>\<open>$11\<close>.
\<close>

record tk_params =
  p_keyword :: string
  p_project_id :: string
  p_project_name :: string
  p_priority :: string
  p_search_volume :: "int option"
  p_target_position :: "int option"
  p_tracking_frequency :: string
  p_location_code :: int
  p_location_name :: string
  p_device :: string
  p_is_active :: bool

text \<open>
  The seventh parameter is written
  \<^verbatim>\<open>kw.trackingFrequency || priority === 'high' ? 'daily' : 'weekly'\<close>; the conditional
  operator binds weaker than \<^verbatim>\<open>||\<close>, so the condition is the whole disjunction.
\<close>

definition import_params :: "config \<Rightarrow> string \<Rightarrow> project_config \<Rightarrow> string \<Rightarrow> kw_config \<Rightarrow> tk_params" where
  "import_params cfg pid projectData priority kw =
     \<lparr>p_keyword = kw_keyword kw,
      p_project_id = pid,
      p_project_name = proj_name projectData,
      p_priority = priority,
      p_search_volume = or_null (kw_searchVolume kw),
      p_target_position = or_null (kw_targetPosition kw),
      p_tracking_frequency =
        (if truthy (kw_trackingFrequency kw) \<or> priority = ''high'' then ''daily'' else ''weekly''),
      p_location_code =
        (case proj_location projectData of
           None \<Rightarrow> ds_locationCode (defaultSettings cfg)
         | Some l \<Rightarrow> (case or_null (loc_code l) of
                       None \<Rightarrow> ds_locationCode (defaultSettings cfg)
                     | Some c \<Rightarrow> c)),
      p_location_name =
        (case proj_location projectData of
           None \<Rightarrow> ds_locationName (defaultSettings cfg)
         | Some l \<Rightarrow> (case loc_name l of
                       None \<Rightarrow> ds_locationName (defaultSettings cfg)
                     | Some n \<Rightarrow> if n = [] then ds_locationName (defaultSettings cfg) else n)),
      p_device = ds_device (defaultSettings cfg),
      p_is_active = True\<rparr>"

text \<open>
  The statement \<^verbatim>\<open>INSERT INTO tracked_keywords ... ON CONFLICT (keyword, project_id,
  device, location_code) DO UPDATE SET ... RETURNING id, (xmax = 0) as inserted\<close>. The
  CHECK constraints of the table are tested on the proposed row (the lengths of the
  VARCHAR columns are not modelled). \<^verbatim>\<open>xmax = 0\<close> holds of a row that the statement has
  inserted and fails of one it has updated.
\<close>

definition tk_check :: "tk_params \<Rightarrow> bool" where
  "tk_check p =
     (p_priority p \<in> {''high'', ''medium'', ''low''} \<and>
      p_tracking_frequency p \<in> {''daily'', ''weekly'', ''monthly''} \<and>
      p_device p \<in> {''desktop'', ''mobile''})"

definition tk_conflict :: "tk_params \<Rightarrow> tracked_keyword \<Rightarrow> bool" where
  "tk_conflict p r =
     (tk_keyword r = p_keyword p \<and> tk_project_id r = p_project_id p \<and>
      sql_eq (tk_device r) (Some (p_device p)) \<and>
      sql_eq (tk_location_code r) (Some (p_location_code p)))"

definition upsert_tracked_keyword :: "tk_params \<Rightarrow> tracker \<Rightarrow> tracker \<times> (error + (nat \<times> bool))" where
  "upsert_tracked_keyword p st =
     (let st1 = st\<lparr>tracked_keywords_seq := tracked_keywords_seq st + 1\<rparr>
      in if \<not> tk_check p then (st1, Inl (StorageError ''violates check constraint''))
         else
           (case filter (tk_conflict p) (tracked_keywords st1) of
              old # _ \<Rightarrow>
                (st1\<lparr>tracked_keywords :=
                      map (\<lambda>r. if tk_conflict p r
                                then r\<lparr>tk_priority := Some (p_priority p),
                                       tk_search_volume := p_search_volume p,
                                       tk_target_position := p_target_position p,
                                       tk_tracking_frequency := Some (p_tracking_frequency p),
                                       tk_updated_at := clock st1\<rparr>
                                else r)
                          (tracked_keywords st1)\<rparr>,
                 Inr (tk_id old, False))
            | [] \<Rightarrow>
                (st1\<lparr>tracked_keywords := tracked_keywords st1 @
                      [\<lparr>tk_id = tracked_keywords_seq st1,
                        tk_keyword = p_keyword p,
                        tk_project_id = p_project_id p,
                        tk_project_name = Some (p_project_name p),
                        tk_priority = Some (p_priority p),
                        tk_search_volume = p_search_volume p,
                        tk_target_position = p_target_position p,
                        tk_tracking_frequency = Some (p_tracking_frequency p),
                        tk_location_code = Some (p_location_code p),
                        tk_location_name = Some (p_location_name p),
                        tk_device = Some (p_device p),
                        tk_is_active = Some (p_is_active p),
                        tk_created_at = clock st1,
                        tk_updated_at = clock st1\<rparr>]\<rparr>,
                 Inr (tracked_keywords_seq st1, True))))"

text \<open>
  The three nested loops of \<^verbatim>\<open>importKeywordsFromConfig\<close> with the counters
  \<^verbatim>\<open>imported\<close> and \<^verbatim>\<open>skipped\<close>; a statement that fails ends them.
\<close>

fun import_keywords ::
  "string \<Rightarrow> project_config \<Rightarrow> string \<Rightarrow> kw_config list \<Rightarrow> tracker \<Rightarrow> nat \<times> nat \<Rightarrow>
   tracker \<times> (error + (nat \<times> nat))" where
  "import_keywords pid projectData priority [] st cnt = (st, Inr cnt)"
| "import_keywords pid projectData priority (kw # kws) st cnt =
     (case upsert_tracked_keyword (import_params (config st) pid projectData priority kw) st of
        (st1, Inl e) \<Rightarrow> (st1, Inl e)
      | (st1, Inr (_, inserted)) \<Rightarrow>
          import_keywords pid projectData priority kws st1
            (if inserted then (fst cnt + 1, snd cnt) else (fst cnt, snd cnt + 1)))"

fun import_priorities ::
  "string \<Rightarrow> project_config \<Rightarrow> (string \<times> kw_config list) list \<Rightarrow> tracker \<Rightarrow> nat \<times> nat \<Rightarrow>
   tracker \<times> (error + (nat \<times> nat))" where
  "import_priorities pid projectData [] st cnt = (st, Inr cnt)"
| "import_priorities pid projectData ((priority, kws) # rest) st cnt =
     (case import_keywords pid projectData priority kws st cnt of
        (st1, Inl e) \<Rightarrow> (st1, Inl e)
      | (st1, Inr cnt1) \<Rightarrow> import_priorities pid projectData rest st1 cnt1)"

fun import_projects ::
  "(string \<times> project_config option) list \<Rightarrow> tracker \<Rightarrow> nat \<times> nat \<Rightarrow> tracker \<times> (error + (nat \<times> nat))" where
  "import_projects [] st cnt = (st, Inr cnt)"
| "import_projects ((pid, None) # rest) st cnt =
     (st, Inl (TypeError ''Cannot read properties of undefined''))"
| "import_projects ((pid, Some projectData) # rest) st cnt =
     (case import_priorities pid projectData (proj_keywords projectData) st cnt of
        (st1, Inl e) \<Rightarrow> (st1, Inl e)
      | (st1, Inr cnt1) \<Rightarrow> import_projects rest st1 cnt1)"

text \<open>
  \<^verbatim>\<open>importKeywordsFromConfig(projectId)\<close>: one transaction. With a project id, the only
  project is the one of that id, \<^verbatim>\<open>undefined\<close> when the configuration has none. An
  error rolls the table back (a sequence is never rolled back) and is thrown again.
\<close>

definition importKeywordsFromConfig :: "string option \<Rightarrow> tracker \<Rightarrow> tracker \<times> (error + (nat \<times> nat))" where
  "importKeywordsFromConfig projectId st =
     (let every = map (\<lambda>(pid, pd). (pid, Some pd)) (projects (config st));
          projs = (case projectId of
                     None \<Rightarrow> every
                   | Some pid \<Rightarrow> if pid \<noteq> [] then [(pid, map_of (projects (config st)) pid)] else every)
      in case import_projects projs st (0, 0) of
           (st1, Inr cnt) \<Rightarrow> (st1, Inr cnt)
         | (st1, Inl e) \<Rightarrow> (st\<lparr>tracked_keywords_seq := tracked_keywords_seq st1\<rparr>, Inl e))"

section \<open>A fresh tracker and example data\<close>

text \<open>
  The constructor followed by \<^verbatim>\<open>init()\<close> on a database that holds the empty tables of
  the schema: an empty cache with the default timeout of one hour, and zero statistics.
\<close>

definition new_tracker :: "config \<Rightarrow> tracker" where
  "new_tracker cfg =
     \<lparr>config = cfg,
      cache = Map.empty,
      cacheTimeout = 3600000,
      stats = \<lparr>keywordsTracked = 0, positionsUpdated = 0, alertsGenerated = 0,
               apiCallsMade = 0, stat_errors = []\<rparr>,
      clock = 0,
      tracked_keywords = [],
      tracked_keywords_seq = 0,
      position_history = [],
      position_history_seq = 0,
      tracking_alerts = [],
      tracking_alerts_seq = 0,
      sync_log = [],
      sync_log_seq = 0\<rparr>"

text \<open>
  A configuration for the examples: a drop of ten places is critical and the top 20 an
  opportunity, as the README has them; a drop of five is a warning; batches of five; no
  projects.
\<close>

definition example_config :: config where
  "example_config =
     \<lparr>projects = [],
      defaultSettings = \<lparr>ds_locationCode = 2840, ds_locationName = ''United States'',
                         ds_device = ''desktop''\<rparr>,
      alertThresholds = \<lparr>critical_positionDrop = 10, warning_positionDrop = 5,
                         opportunity_enterTopN = 20\<rparr>,
      apiLimits = Some \<lparr>batchSize = 5, delayBetweenBatches = 1000\<rparr>\<rparr>"

text \<open>An active row of \<^verbatim>\<open>tracked_keywords\<close> of project \<^verbatim>\<open>P\<close>, for the examples.\<close>

definition example_keyword :: "nat \<Rightarrow> string \<Rightarrow> string \<Rightarrow> string \<Rightarrow> tracked_keyword" where
  "example_keyword i kw priority device =
     \<lparr>tk_id = i, tk_keyword = kw, tk_project_id = ''P'', tk_project_name = Some ''Project'',
      tk_priority = Some priority, tk_search_volume = None, tk_target_position = Some 3,
      tk_tracking_frequency = Some ''daily'', tk_location_code = Some 2840,
      tk_location_name = Some ''United States'', tk_device = Some device,
      tk_is_active = Some True, tk_created_at = 0, tk_updated_at = 0\<rparr>"

definition example_observation :: "int \<Rightarrow> position_data" where
  "example_observation p =
     \<lparr>pd_position = Some p, pd_url = Some ''https://example.com/'', pd_serpFeatures = [],
      pd_rawData = ''{}''\<rparr>"



definition coffee_tracker :: tracker where
  "coffee_tracker =
     (new_tracker example_config)
       \<lparr>tracked_keywords := [example_keyword 1 ''best coffee'' ''high'' ''desktop''],
        tracked_keywords_seq := 1,
        clock := 1700000000000\<rparr>"

text \<open>
  For the statements about keyword errors: the entries that a batch adds to
  \<^verbatim>\<open>stats.errors\<close> when every lookup goes to a provider whose answers depend on the
  keyword, location and device only.
\<close>

definition lookup_errors :: "(string \<Rightarrow> int option \<Rightarrow> string option \<Rightarrow> error + position_data) \<Rightarrow> tracked_keyword list \<Rightarrow> (string \<times> string) list" where
  "lookup_errors Q ks =
     map (\<lambda>k. (tk_keyword k, message (projl (Q (tk_keyword k) (tk_location_code k) (tk_device k)))))
       (filter (\<lambda>k. isl (Q (tk_keyword k) (tk_location_code k) (tk_device k))) ks)"

text \<open>
  Ten due keywords of high priority, and a provider that fails on the third, sixth and
  ninth of them.
\<close>

definition ten_keywords :: "tracked_keyword list" where
  "ten_keywords =
     map (\<lambda>(i, kw). example_keyword i kw ''high'' ''desktop'')
       [(1, ''kw1''), (2, ''kw2''), (3, ''kw3''), (4, ''kw4''), (5, ''kw5''),
        (6, ''kw6''), (7, ''kw7''), (8, ''kw8''), (9, ''kw9''), (10, ''kw10'')]"

definition ten_tracker :: tracker where
  "ten_tracker =
     (new_tracker example_config)
       \<lparr>tracked_keywords := ten_keywords, tracked_keywords_seq := 10, clock := 1700000000000\<rparr>"

definition failing_lookup :: "string \<Rightarrow> int option \<Rightarrow> string option \<Rightarrow> error + position_data" where
  "failing_lookup kw loc dev =
     (if kw \<in> {''kw3'', ''kw6'', ''kw9''}
      then Inl (ProviderError ''Request failed with status code 500'')
      else Inr (example_observation 7))"

text \<open>
  A provider that always answers position 7, and the tracker of \<open>coffee_tracker\<close> with
  a configuration file that has no \<^verbatim>\<open>apiLimits\<close> section.
\<close>

definition steady_provider :: provider where
  "steady_provider n kw loc dev = Inr (example_observation 7)"





definition due_alert :: "tracker \<Rightarrow> nat \<Rightarrow> (nat \<times> alert_type \<times> int option \<times> int option \<times> int option) list" where
  "due_alert st k =
     (case query_position_change k st of
        None \<Rightarrow> []
      | Some ch \<Rightarrow>
          (case alert_rule (alertThresholds (config st)) ch of
             None \<Rightarrow> []
           | Some t \<Rightarrow> [(k, t, ch_position_change ch, ch_previous_position ch, ch_current_position ch)]))"



text \<open>
  A configuration with one project and three keywords: one of high priority without a
  tracking frequency, and two of low priority, the first of which asks for
  \<^verbatim>\<open>monthly\<close>; and a fresh tracker with that configuration.
\<close>

definition import_config :: config where
  "import_config =
     example_config
       \<lparr>projects :=
          [(''P'',
            \<lparr>proj_name = ''Project'',
             proj_location = Some \<lparr>loc_code = Some 2840, loc_name = Some ''United States''\<rparr>,
             proj_keywords =
               [(''high'', [\<lparr>kw_keyword = ''best coffee'', kw_searchVolume = Some 1000,
                             kw_targetPosition = Some 3, kw_trackingFrequency = JUndefined\<rparr>]),
                (''low'', [\<lparr>kw_keyword = ''tea'', kw_searchVolume = None,
                            kw_targetPosition = None, kw_trackingFrequency = JStr ''monthly''\<rparr>,
                           \<lparr>kw_keyword = ''cocoa'', kw_searchVolume = None,
                            kw_targetPosition = None, kw_trackingFrequency = JUndefined\<rparr>])]\<rparr>)]\<rparr>"

definition import_tracker :: tracker where
  "import_tracker = new_tracker import_config"

text \<open>
  For the statements about the import: every row of the second tracker's table is a row of
  the first or has the frequency \<^verbatim>\<open>daily\<close> or \<^verbatim>\<open>weekly\<close>.
\<close>

definition daily_or_weekly_since :: "tracker \<Rightarrow> tracker \<Rightarrow> bool" where
  "daily_or_weekly_since st st' =
     list_all (\<lambda>r. r \<in> set (tracked_keywords st) \<or> tk_tracking_frequency r = Some ''daily'' \<or>
                    tk_tracking_frequency r = Some ''weekly'') (tracked_keywords st')"

section \<open>What the operations leave unchanged\<close>

lemma sql_eq_None [simp]: "sql_eq a None = False" "sql_eq None b = False"
  by (auto simp: sql_eq_def split: option.splits)

lemma sql_eq_Some [simp]: "sql_eq (Some x) (Some y) = (x = y)"
  by (simp add: sql_eq_def)

lemma savePosition_frame:
  "sync_log (fst (savePosition k pd st)) = sync_log st"
  "config (fst (savePosition k pd st)) = config st"
  "clock (fst (savePosition k pd st)) = clock st"
  "cacheTimeout (fst (savePosition k pd st)) = cacheTimeout st"
  "cache (fst (savePosition k pd st)) = cache st"
  "stats (fst (savePosition k pd st)) = stats st"
  "tracking_alerts (fst (savePosition k pd st)) = tracking_alerts st"
  by (simp_all add: savePosition_def Let_def)

lemma savePosition_frameD:
  assumes "savePosition k pd st = (st', r)"
  shows "sync_log st' = sync_log st \<and> config st' = config st \<and> clock st' = clock st \<and>
         cacheTimeout st' = cacheTimeout st \<and> cache st' = cache st \<and> stats st' = stats st \<and>
         tracking_alerts st' = tracking_alerts st"
  using savePosition_frame [of k pd st] assms by simp

lemma trackKeyword_try_frame:
  "sync_log (fst (trackKeyword_try P k st)) = sync_log st"
  "config (fst (trackKeyword_try P k st)) = config st"
  "clock (fst (trackKeyword_try P k st)) = clock st"
  "cacheTimeout (fst (trackKeyword_try P k st)) = cacheTimeout st"
  "tracking_alerts (fst (trackKeyword_try P k st)) = tracking_alerts st"
  unfolding trackKeyword_try_def Let_def fetchPositionFromDataForSEO_def
  by (auto split: option.splits prod.splits sum.splits dest!: savePosition_frameD)

lemma trackKeyword_frame:
  "sync_log (trackKeyword P k st) = sync_log st"
  "config (trackKeyword P k st) = config st"
  "clock (trackKeyword P k st) = clock st"
  "cacheTimeout (trackKeyword P k st) = cacheTimeout st"
  "tracking_alerts (trackKeyword P k st) = tracking_alerts st"
  using trackKeyword_try_frame [of P k st]
  by (auto simp: trackKeyword_def split: prod.splits sum.splits)

lemma trackKeywordBatch_frame:
  "sync_log (fst (trackKeywordBatch P ks st)) = sync_log st \<and>
   config (fst (trackKeywordBatch P ks st)) = config st \<and>
   clock (fst (trackKeywordBatch P ks st)) = clock st \<and>
   cacheTimeout (fst (trackKeywordBatch P ks st)) = cacheTimeout st \<and>
   tracking_alerts (fst (trackKeywordBatch P ks st)) = tracking_alerts st"
  by (induction ks arbitrary: st) (simp_all add: trackKeyword_frame)

lemma trackKeywordBatch_never_throws: "snd (trackKeywordBatch P ks st) = Inr ()"
  by (induction ks arbitrary: st) simp_all

lemma length_js_slice:
  "0 \<le> i \<Longrightarrow> 0 < b \<Longrightarrow> length (js_slice xs i (i + b)) = nat (min (i + b) (int (length xs)) - min i (int (length xs)))"
  by (auto simp: js_slice_def Let_def min_def)

lemma track_batches_total:
  assumes "0 < batchSize lim" "0 \<le> i"
  shows "\<exists>st' res'. track_batches P lim kws i st res = Some (st', res') \<and>
           sync_log st' = sync_log st \<and> config st' = config st \<and>
           cacheTimeout st' = cacheTimeout st \<and> tracking_alerts st' = tracking_alerts st \<and>
           success res' = success res + (length kws - nat i) \<and>
           failed res' = failed res \<and> errors res' = errors res"
  using assms
proof (induction "nat (int (length kws) - i)" arbitrary: i st res rule: less_induct)
  case less
  show ?case
  proof (cases "i < int (length kws)")
    case False
    then show ?thesis
      by (subst track_batches.simps) (simp add: nat_le_iff)
  next
    case True
    let ?b = "js_slice kws i (i + batchSize lim)"
    let ?tb = "trackKeywordBatch P ?b st"
    let ?st2 = "if i + batchSize lim < int (length kws)
                then sleep (delayBetweenBatches lim) (fst ?tb) else fst ?tb"
    let ?res1 = "res\<lparr>success := success res + length ?b\<rparr>"
    have step: "track_batches P lim kws i st res =
                track_batches P lim kws (i + batchSize lim) ?st2 ?res1"
      using True
      by (subst track_batches.simps) (simp add: Let_def trackKeywordBatch_never_throws)
    have m: "nat (int (length kws) - (i + batchSize lim)) < nat (int (length kws) - i)"
      using True less.prems by simp
    have nn: "0 \<le> i + batchSize lim" using less.prems by simp
    from less.hyps [OF m less.prems(1) nn, of ?st2 ?res1]
    obtain st' res' where r:
      "track_batches P lim kws (i + batchSize lim) ?st2 ?res1 = Some (st', res')"
      "sync_log st' = sync_log ?st2" "config st' = config ?st2"
      "cacheTimeout st' = cacheTimeout ?st2" "tracking_alerts st' = tracking_alerts ?st2"
      "success res' = success ?res1 + (length kws - nat (i + batchSize lim))"
      "failed res' = failed ?res1" "errors res' = errors ?res1"
      by blast
    have fr: "sync_log ?st2 = sync_log st" "config ?st2 = config st"
      "cacheTimeout ?st2 = cacheTimeout st" "tracking_alerts ?st2 = tracking_alerts st"
      using trackKeywordBatch_frame [of P ?b st] by (simp_all add: sleep_def)
    have len: "length ?b + (length kws - nat (i + batchSize lim)) = length kws - nat i"
      using True less.prems by (simp add: length_js_slice min_def) linarith
    show ?thesis
      using r fr len step by simp
  qed
qed

section \<open>One call of savePosition, one turn of the batch loop\<close>

text \<open>
  The row that \<^verbatim>\<open>savePosition\<close> proposes has a NULL location, so no row of the table
  conflicts with it: the statement always inserts.
\<close>

lemma ph_conflict_null_location [simp]:
  "ph_location new = None \<Longrightarrow> ph_conflict new old = False"
  by (simp add: ph_conflict_def)

lemma savePosition_ok:
  assumes "list_ex (\<lambda>r. tk_id r = k) (tracked_keywords st)"
  shows "\<exists>prev. savePosition k pd st =
     (st\<lparr>position_history_seq := position_history_seq st + 1,
         position_history := position_history st @
           [\<lparr>ph_id = position_history_seq st + 1, ph_keyword_id = k,
             ph_position = pd_position pd, ph_url = pd_url pd, ph_date = today st,
             ph_device = Some (ds_device (defaultSettings (config st))),
             ph_location = None, ph_serp_features = pd_serpFeatures pd,
             ph_data_source = ''dataforseo'', ph_raw_data = pd_rawData pd,
             ph_created_at = clock st\<rparr>],
         tracked_keywords :=
           map (\<lambda>r. if tk_id r = k then r\<lparr>tk_updated_at := clock st\<rparr> else r) (tracked_keywords st)\<rparr>,
      Inr (prev, pd_position pd))"
  using assms
  by (simp add: savePosition_def Let_def list_ex_iff today_def)


lemma list_ex_map_updated [simp]:
  "list_ex (\<lambda>r. tk_id r = j) (map (\<lambda>r. if tk_id r = k then r\<lparr>tk_updated_at := t\<rparr> else r) rows)
   = list_ex (\<lambda>r. tk_id r = j) rows"
  by (induction rows) auto


lemma trackKeyword_miss_fail:
  assumes "\<forall>c. cache st (cacheKey k) = Some c \<longrightarrow> \<not> clock st - ce_timestamp c < cacheTimeout st"
    and "P (apiCallsMade (stats st) + 1) (tk_keyword k) (tk_location_code k) (tk_device k) = Inl e"
  shows "trackKeyword P k st =
     st\<lparr>stats := (stats st)\<lparr>apiCallsMade := apiCallsMade (stats st) + 1,
                            stat_errors := stat_errors (stats st) @ [(tk_keyword k, message e)]\<rparr>\<rparr>"
  using assms
  by (auto simp: trackKeyword_def trackKeyword_try_def Let_def fetchPositionFromDataForSEO_def
      split: option.splits)

lemma trackKeyword_miss_ok:
  assumes "\<forall>c. cache st (cacheKey k) = Some c \<longrightarrow> \<not> clock st - ce_timestamp c < cacheTimeout st"
    and "P (apiCallsMade (stats st) + 1) (tk_keyword k) (tk_location_code k) (tk_device k) = Inr pos"
    and "list_ex (\<lambda>r. tk_id r = tk_id k) (tracked_keywords st)"
  shows "trackKeyword P k st =
     st\<lparr>stats := (stats st)\<lparr>apiCallsMade := apiCallsMade (stats st) + 1,
                            positionsUpdated := positionsUpdated (stats st) + 1\<rparr>,
         cache := (cache st)(cacheKey k \<mapsto> \<lparr>ce_data = pos, ce_timestamp = clock st\<rparr>),
         position_history_seq := position_history_seq st + 1,
         position_history := position_history st @
           [\<lparr>ph_id = position_history_seq st + 1, ph_keyword_id = tk_id k,
             ph_position = pd_position pos, ph_url = pd_url pos, ph_date = today st,
             ph_device = Some (ds_device (defaultSettings (config st))),
             ph_location = None, ph_serp_features = pd_serpFeatures pos,
             ph_data_source = ''dataforseo'', ph_raw_data = pd_rawData pos,
             ph_created_at = clock st\<rparr>],
         tracked_keywords :=
           map (\<lambda>r. if tk_id r = tk_id k then r\<lparr>tk_updated_at := clock st\<rparr> else r) (tracked_keywords st)\<rparr>"
proof -
  let ?st2 = "st\<lparr>stats := (stats st)\<lparr>apiCallsMade := apiCallsMade (stats st) + 1\<rparr>,
                 cache := (cache st)(cacheKey k \<mapsto> \<lparr>ce_data = pos, ce_timestamp = clock st\<rparr>)\<rparr>"
  have fk: "list_ex (\<lambda>r. tk_id r = tk_id k) (tracked_keywords ?st2)"
    using assms(3) by simp
  from savePosition_ok [OF fk, of pos] obtain prev where
    sp: "savePosition (tk_id k) pos ?st2 = (?st2\<lparr>position_history_seq := position_history_seq ?st2 + 1,
         position_history := position_history ?st2 @
           [\<lparr>ph_id = position_history_seq ?st2 + 1, ph_keyword_id = tk_id k,
             ph_position = pd_position pos, ph_url = pd_url pos, ph_date = today ?st2,
             ph_device = Some (ds_device (defaultSettings (config ?st2))),
             ph_location = None, ph_serp_features = pd_serpFeatures pos,
             ph_data_source = ''dataforseo'', ph_raw_data = pd_rawData pos,
             ph_created_at = clock ?st2\<rparr>],
         tracked_keywords :=
           map (\<lambda>r. if tk_id r = tk_id k then r\<lparr>tk_updated_at := clock ?st2\<rparr> else r) (tracked_keywords ?st2)\<rparr>,
      Inr (prev, pd_position pos))"
    by blast
  have hit: "(case cache st (cacheKey k) of
        None \<Rightarrow> None
      | Some cached \<Rightarrow> if clock st - ce_timestamp cached < cacheTimeout st then Some cached else None) = None"
    using assms(1) by (auto split: option.splits)
  show ?thesis
    using assms(2) sp
    by (simp add: trackKeyword_def trackKeyword_try_def Let_def hit fetchPositionFromDataForSEO_def today_def)
qed

section \<open>Claims about savePosition\<close>



text \<open>
  Claim C2. Two observations saved for the same keyword on the same day, with the same
  device and data source, should leave one row holding the second. \<^verbatim>\<open>savePosition\<close>
  never supplies \<^verbatim>\<open>location\<close>, a column of the conflict target, so both rows have a NULL
  location and the unique index does not match them: the table ends with two rows for the
  same keyword, day, device and source, the first with position 7 and the second with 9.
\<close>

theorem savePosition_twice_two_rows:
  "map (\<lambda>r. (ph_keyword_id r, ph_date r, ph_device r, ph_location r, ph_data_source r, ph_position r))
     (position_history
        (fst (savePosition 1 (example_observation 9)
           (fst (savePosition 1 (example_observation 7) coffee_tracker))))) =
   [(1, 19675, Some ''desktop'', None, ''dataforseo'', Some 7),
    (1, 19675, Some ''desktop'', None, ''dataforseo'', Some 9)]"
  by (simp add: savePosition_def Let_def coffee_tracker_def new_tracker_def example_config_def
      example_keyword_def example_observation_def today_def)

section \<open>A batch whose lookups all miss the cache\<close>

lemma savePosition_ids:
  "map tk_id (tracked_keywords (fst (savePosition k pd st))) = map tk_id (tracked_keywords st)"
  by (simp add: savePosition_def Let_def comp_def cong: map_cong)

lemma trackKeyword_cache_other:
  "key \<noteq> cacheKey k \<Longrightarrow> cache (trackKeyword P k st) key = cache st key"
  unfolding trackKeyword_def trackKeyword_try_def Let_def fetchPositionFromDataForSEO_def
  by (auto split: option.splits prod.splits sum.splits dest!: savePosition_frameD)

lemma savePosition_idsD:
  "savePosition k pd st = (st', r) \<Longrightarrow> map tk_id (tracked_keywords st') = map tk_id (tracked_keywords st)"
  using savePosition_ids [of k pd st] by simp

lemma trackKeyword_ids:
  "map tk_id (tracked_keywords (trackKeyword P k st)) = map tk_id (tracked_keywords st)"
  unfolding trackKeyword_def trackKeyword_try_def Let_def fetchPositionFromDataForSEO_def
  by (auto split: option.splits prod.splits sum.splits dest!: savePosition_idsD)

lemma list_ex_tk_id: "list_ex (\<lambda>r. tk_id r = j) rows = (j \<in> set (map tk_id rows))"
  by (auto simp: list_ex_iff)

lemma trackKeywordBatch_cold:
  assumes "\<forall>k\<in>set ks. cache st (cacheKey k) = None"
    and "distinct (map cacheKey ks)"
    and "\<forall>k\<in>set ks. tk_id k \<in> set (map tk_id (tracked_keywords st))"
  shows "stat_errors (stats (fst (trackKeywordBatch (\<lambda>n. Q) ks st))) =
           stat_errors (stats st) @ lookup_errors Q ks \<and>
         map tk_id (tracked_keywords (fst (trackKeywordBatch (\<lambda>n. Q) ks st))) = map tk_id (tracked_keywords st) \<and>
         (\<forall>key. key \<notin> set (map cacheKey ks) \<longrightarrow> cache (fst (trackKeywordBatch (\<lambda>n. Q) ks st)) key = cache st key)"
  using assms
proof (induction ks arbitrary: st)
  case Nil
  then show ?case by (simp add: lookup_errors_def)
next
  case (Cons k ks)
  let ?st1 = "trackKeyword (\<lambda>n. Q) k st"
  have miss: "\<forall>c. cache st (cacheKey k) = Some c \<longrightarrow> \<not> clock st - ce_timestamp c < cacheTimeout st"
    using Cons.prems(1) by simp
  have fk: "list_ex (\<lambda>r. tk_id r = tk_id k) (tracked_keywords st)"
    using Cons.prems(3) by (simp add: list_ex_tk_id)
  have errs: "stat_errors (stats ?st1) = stat_errors (stats st) @ lookup_errors Q [k]"
  proof (cases "Q (tk_keyword k) (tk_location_code k) (tk_device k)")
    case (Inl e)
    show ?thesis
      by (subst trackKeyword_miss_fail [OF miss, where e = e]) (simp_all add: Inl lookup_errors_def)
  next
    case (Inr pos)
    show ?thesis
      by (subst trackKeyword_miss_ok [OF miss _ fk, where pos = pos]) (simp_all add: Inr lookup_errors_def)
  qed
  have c1: "\<forall>k'\<in>set ks. cache ?st1 (cacheKey k') = None"
  proof
    fix k' assume k': "k' \<in> set ks"
    have "cacheKey k \<notin> cacheKey ` set ks" using Cons.prems(2) by simp
    with k' have "cacheKey k' \<noteq> cacheKey k" by (metis imageI)
    then show "cache ?st1 (cacheKey k') = None"
      using Cons.prems(1) k' by (simp add: trackKeyword_cache_other)
  qed
  have i1: "\<forall>k'\<in>set ks. tk_id k' \<in> set (map tk_id (tracked_keywords ?st1))"
    using Cons.prems(3) by (simp add: trackKeyword_ids)
  have d1: "distinct (map cacheKey ks)" using Cons.prems(2) by simp
  from Cons.IH [OF c1 d1 i1]
  show ?case
    using errs by (auto simp: lookup_errors_def trackKeyword_ids trackKeyword_cache_other)
qed

lemma js_slice_take_drop:
  "0 \<le> i \<Longrightarrow> 0 < b \<Longrightarrow> js_slice xs i (i + b) = take (nat b) (drop (nat i) xs)"
  by (auto simp: js_slice_def Let_def min_def)

lemma lookup_errors_append: "lookup_errors Q (xs @ ys) = lookup_errors Q xs @ lookup_errors Q ys"
  by (simp add: lookup_errors_def)

lemma sleep_frame [simp]:
  "stats (sleep ms st) = stats st" "cache (sleep ms st) = cache st"
  "tracked_keywords (sleep ms st) = tracked_keywords st"
  "sync_log (sleep ms st) = sync_log st" "config (sleep ms st) = config st"
  by (simp_all add: sleep_def)

lemma distinct_map_take_drop:
  "distinct (map f xs) \<Longrightarrow> set (map f (take n xs)) \<inter> set (map f (drop n xs)) = {}"
  by (metis append_take_drop_id distinct_append map_append)

lemma distinct_map_take: "distinct (map f xs) \<Longrightarrow> distinct (map f (take n xs))"
  by (metis distinct_take take_map)

lemma distinct_map_drop: "distinct (map f xs) \<Longrightarrow> distinct (map f (drop n xs))"
  by (metis distinct_drop drop_map)

lemma track_batches_cold:
  assumes "0 < batchSize lim" "0 \<le> i"
    and "\<forall>k\<in>set (drop (nat i) kws). cache st (cacheKey k) = None"
    and "distinct (map cacheKey (drop (nat i) kws))"
    and "\<forall>k\<in>set (drop (nat i) kws). tk_id k \<in> set (map tk_id (tracked_keywords st))"
  shows "\<exists>st' res'. track_batches (\<lambda>n. Q) lim kws i st res = Some (st', res') \<and>
           stat_errors (stats st') = stat_errors (stats st) @ lookup_errors Q (drop (nat i) kws)"
  using assms
proof (induction "nat (int (length kws) - i)" arbitrary: i st res rule: less_induct)
  case less
  show ?case
  proof (cases "i < int (length kws)")
    case False
    then show ?thesis
      by (subst track_batches.simps) (simp add: nat_le_iff lookup_errors_def)
  next
    case True
    let ?P = "\<lambda>n::nat. Q"
    let ?ds = "drop (nat i) kws"
    let ?n = "nat (batchSize lim)"
    let ?b = "js_slice kws i (i + batchSize lim)"
    let ?tb = "trackKeywordBatch ?P ?b st"
    let ?st2 = "if i + batchSize lim < int (length kws)
                then sleep (delayBetweenBatches lim) (fst ?tb) else fst ?tb"
    let ?res1 = "res\<lparr>success := success res + length ?b\<rparr>"
    have b: "?b = take ?n ?ds"
      using less.prems by (simp add: js_slice_take_drop)
    have rest: "drop (nat (i + batchSize lim)) kws = drop ?n ?ds"
      using less.prems by (simp add: nat_add_distrib add.commute)
    have split: "?ds = take ?n ?ds @ drop ?n ?ds" by (rule append_take_drop_id [symmetric])
    have step: "track_batches ?P lim kws i st res =
                track_batches ?P lim kws (i + batchSize lim) ?st2 ?res1"
      using True
      by (subst track_batches.simps) (simp add: Let_def trackKeywordBatch_never_throws)
    have cb: "\<forall>k\<in>set (take ?n ?ds). cache st (cacheKey k) = None"
      using less.prems(3) by (meson in_set_takeD)
    have db: "distinct (map cacheKey (take ?n ?ds))"
      using less.prems(4) by (rule distinct_map_take)
    have ib: "\<forall>k\<in>set (take ?n ?ds). tk_id k \<in> set (map tk_id (tracked_keywords st))"
      using less.prems(5) by (meson in_set_takeD)
    note cold = trackKeywordBatch_cold [OF cb db ib, where Q = Q, folded b]
    have disj: "set (map cacheKey (take ?n ?ds)) \<inter> set (map cacheKey (drop ?n ?ds)) = {}"
      using less.prems(4) by (rule distinct_map_take_drop)
    have c2: "\<forall>k\<in>set (drop (nat (i + batchSize lim)) kws). cache ?st2 (cacheKey k) = None"
    proof
      fix k assume k: "k \<in> set (drop (nat (i + batchSize lim)) kws)"
      then have kd: "k \<in> set (drop ?n ?ds)" by (simp only: rest)
      then have "cacheKey k \<notin> set (map cacheKey (take ?n ?ds))" using disj by auto
      then have "cache (fst ?tb) (cacheKey k) = cache st (cacheKey k)"
        using cold b by simp
      moreover have "k \<in> set ?ds" using kd by (meson in_set_dropD)
      ultimately show "cache ?st2 (cacheKey k) = None"
        using less.prems(3) by simp
    qed
    have d2: "distinct (map cacheKey (drop (nat (i + batchSize lim)) kws))"
      using less.prems(4) by (simp only: rest) (rule distinct_map_drop)
    have i2: "\<forall>k\<in>set (drop (nat (i + batchSize lim)) kws). tk_id k \<in> set (map tk_id (tracked_keywords ?st2))"
    proof
      fix k assume k: "k \<in> set (drop (nat (i + batchSize lim)) kws)"
      then have "k \<in> set ?ds" by (simp only: rest) (meson in_set_dropD)
      moreover have "map tk_id (tracked_keywords ?st2) = map tk_id (tracked_keywords st)"
        using cold by simp
      then have "set (map tk_id (tracked_keywords ?st2)) = set (map tk_id (tracked_keywords st))"
        by (rule arg_cong)
      ultimately show "tk_id k \<in> set (map tk_id (tracked_keywords ?st2))"
        using less.prems(5) by blast
    qed
    have m: "nat (int (length kws) - (i + batchSize lim)) < nat (int (length kws) - i)"
      using True less.prems by simp
    have nn: "0 \<le> i + batchSize lim" using less.prems by simp
    from less.hyps [OF m less.prems(1) nn c2 d2 i2, of ?res1]
    obtain st' res' where r:
      "track_batches ?P lim kws (i + batchSize lim) ?st2 ?res1 = Some (st', res')"
      "stat_errors (stats st') = stat_errors (stats ?st2) @ lookup_errors Q (drop (nat (i + batchSize lim)) kws)"
      by blast
    have s2: "stats ?st2 = stats (fst ?tb)" by simp
    have e2: "stat_errors (stats ?st2) = stat_errors (stats st) @ lookup_errors Q (take ?n ?ds)"
      unfolding s2 using cold unfolding b by blast
    have "lookup_errors Q ?ds = lookup_errors Q (take ?n ?ds) @ lookup_errors Q (drop ?n ?ds)"
      by (subst split) (simp only: lookup_errors_append)
    then have "stat_errors (stats st') = stat_errors (stats st) @ lookup_errors Q ?ds"
      using r(2) e2 by (simp only: rest append_assoc)
    then show ?thesis
      using r(1) step by simp
  qed
qed

section \<open>The tracking invocation as a whole\<close>

lemma createAlert_frame [simp]:
  "sync_log (createAlert k t pc ch st) = sync_log st"
  "config (createAlert k t pc ch st) = config st"
  "stats (createAlert k t pc ch st) = stats st"
  "clock (createAlert k t pc ch st) = clock st"
  "position_history (createAlert k t pc ch st) = position_history st"
  "tracked_keywords (createAlert k t pc ch st) = tracked_keywords st"
  by (simp_all add: createAlert_def)

lemma view_createAlert [simp]:
  "query_position_change j (createAlert k t pc ch st) = query_position_change j st"
  by (simp add: query_position_change_def v_position_changes_7d_def)

lemma generateAlerts_loop_frame:
  "sync_log (fst (generateAlerts_loop ids st n)) = sync_log st \<and>
   stats (fst (generateAlerts_loop ids st n)) = stats st \<and>
   config (fst (generateAlerts_loop ids st n)) = config st \<and>
   position_history (fst (generateAlerts_loop ids st n)) = position_history st \<and>
   tracked_keywords (fst (generateAlerts_loop ids st n)) = tracked_keywords st"
  by (induction ids arbitrary: st n) (auto split: option.splits)

lemma generateAlerts_frame:
  "sync_log (fst (generateAlerts ids st)) = sync_log st"
  "stat_errors (stats (fst (generateAlerts ids st))) = stat_errors (stats st)"
  "apiCallsMade (stats (fst (generateAlerts ids st))) = apiCallsMade (stats st)"
  "position_history (fst (generateAlerts ids st)) = position_history st"
  using generateAlerts_loop_frame [of ids st 0]
  by (auto simp: generateAlerts_def split: prod.splits)

lemma run_completes:
  assumes "apiLimits (config st) = Some lim" "0 < batchSize lim"
    and "getKeywordsToTrack priority projectId st \<noteq> []"
  shows "\<exists>st' res t. trackKeywordsByPriority P priority projectId st = Some (st', Inr res) \<and>
     success res = length (getKeywordsToTrack priority projectId st) \<and> failed res = 0 \<and> errors res = [] \<and>
     sync_log st' =
       map (\<lambda>r. if sl_id r = sync_log_seq st + 1
                 then r\<lparr>sl_keywords_success := Some (length (getKeywordsToTrack priority projectId st)),
                        sl_keywords_failed := Some 0,
                        sl_errors := Some [],
                        sl_completed_at := Some t,
                        sl_status := Completed\<rparr>
                 else r)
         (sync_log st @
          [\<lparr>sl_id = sync_log_seq st + 1, sl_sync_type = ''dataforseo'', sl_project_id = projectId,
            sl_keywords_processed = length (getKeywordsToTrack priority projectId st),
            sl_keywords_success = None, sl_keywords_failed = None, sl_errors = None,
            sl_started_at = clock st, sl_completed_at = None, sl_status = Running\<rparr>])"
proof -
  let ?kws = "getKeywordsToTrack priority projectId st"
  let ?new = "\<lparr>sl_id = sync_log_seq st + 1, sl_sync_type = ''dataforseo'', sl_project_id = projectId,
            sl_keywords_processed = length ?kws,
            sl_keywords_success = None, sl_keywords_failed = None, sl_errors = None,
            sl_started_at = clock st, sl_completed_at = None, sl_status = Running\<rparr>"
  let ?st1 = "st\<lparr>sync_log := sync_log st @ [?new], sync_log_seq := sync_log_seq st + 1\<rparr>"
  let ?r0 = "\<lparr>success = 0, failed = 0, errors = []\<rparr>"
  have cs: "createSyncLog ''dataforseo'' projectId (length ?kws) st = (?st1, sync_log_seq st + 1)"
    by (simp add: createSyncLog_def Let_def)
  from track_batches_total [OF assms(2), of 0 P ?kws ?st1 ?r0]
  obtain st2 res where tb:
    "track_batches P lim ?kws 0 ?st1 ?r0 = Some (st2, res)"
    "sync_log st2 = sync_log ?st1" "success res = length ?kws" "failed res = 0" "errors res = []"
    by auto
  have "trackKeywordsByPriority P priority projectId st =
        Some (fst (generateAlerts (map tk_id ?kws) (completeSyncLog (sync_log_seq st + 1) (length ?kws) 0 [] st2)),
              Inr res)"
    using assms(1,3) tb cs by (simp add: trackKeywordsByPriority_def Let_def)
  moreover have "sync_log (fst (generateAlerts (map tk_id ?kws)
                    (completeSyncLog (sync_log_seq st + 1) (length ?kws) 0 [] st2))) =
      map (\<lambda>r. if sl_id r = sync_log_seq st + 1
                 then r\<lparr>sl_keywords_success := Some (length ?kws),
                        sl_keywords_failed := Some 0,
                        sl_errors := Some [],
                        sl_completed_at := Some (clock st2),
                        sl_status := Completed\<rparr>
                 else r)
         (sync_log st @ [?new])"
    using tb(2) by (simp add: generateAlerts_frame completeSyncLog_def)
  ultimately show ?thesis
    using tb(3,4,5) by blast
qed

lemma completeSyncLog_frame [simp]:
  "stats (completeSyncLog i a b e st) = stats st"
  "position_history (completeSyncLog i a b e st) = position_history st"
  by (simp_all add: completeSyncLog_def)

lemma run_cold_errors:
  assumes "apiLimits (config st) = Some lim" "0 < batchSize lim"
    and "getKeywordsToTrack priority projectId st \<noteq> []"
    and "\<forall>k\<in>set (getKeywordsToTrack priority projectId st). cache st (cacheKey k) = None"
    and "distinct (map cacheKey (getKeywordsToTrack priority projectId st))"
    and "\<forall>k\<in>set (getKeywordsToTrack priority projectId st). tk_id k \<in> set (map tk_id (tracked_keywords st))"
    and "trackKeywordsByPriority (\<lambda>n. Q) priority projectId st = Some (st', r)"
  shows "stat_errors (stats st') =
           stat_errors (stats st) @ lookup_errors Q (getKeywordsToTrack priority projectId st)"
proof -
  let ?kws = "getKeywordsToTrack priority projectId st"
  let ?new = "\<lparr>sl_id = sync_log_seq st + 1, sl_sync_type = ''dataforseo'', sl_project_id = projectId,
            sl_keywords_processed = length ?kws,
            sl_keywords_success = None, sl_keywords_failed = None, sl_errors = None,
            sl_started_at = clock st, sl_completed_at = None, sl_status = Running\<rparr>"
  let ?st1 = "st\<lparr>sync_log := sync_log st @ [?new], sync_log_seq := sync_log_seq st + 1\<rparr>"
  let ?r0 = "\<lparr>success = 0, failed = 0, errors = []\<rparr>"
  have cs: "createSyncLog ''dataforseo'' projectId (length ?kws) st = (?st1, sync_log_seq st + 1)"
    by (simp add: createSyncLog_def Let_def)
  have z: "(0::int) \<le> 0" by simp
  have a: "\<forall>k\<in>set (drop (nat 0) ?kws). cache ?st1 (cacheKey k) = None"
    using assms(4) by simp
  have b: "distinct (map cacheKey (drop (nat 0) ?kws))" using assms(5) by simp
  have c: "\<forall>k\<in>set (drop (nat 0) ?kws). tk_id k \<in> set (map tk_id (tracked_keywords ?st1))"
    using assms(6) by simp
  from track_batches_cold [OF assms(2) z a b c, of Q ?r0]
  obtain st2 res where tb:
    "track_batches (\<lambda>n. Q) lim ?kws 0 ?st1 ?r0 = Some (st2, res)"
    "stat_errors (stats st2) = stat_errors (stats st) @ lookup_errors Q ?kws"
    by auto
  have "trackKeywordsByPriority (\<lambda>n. Q) priority projectId st =
        Some (fst (generateAlerts (map tk_id ?kws) (completeSyncLog (sync_log_seq st + 1) (success res) (failed res) (errors res) st2)),
              Inr res)"
    using assms(1,3) tb cs by (simp add: trackKeywordsByPriority_def Let_def)
  with assms(7) have "st' = fst (generateAlerts (map tk_id ?kws) (completeSyncLog (sync_log_seq st + 1) (success res) (failed res) (errors res) st2))"
    by simp
  then show ?thesis
    using tb(2) by (simp add: generateAlerts_frame)
qed

lemma run_empty:
  assumes "getKeywordsToTrack priority projectId st = []"
  shows "trackKeywordsByPriority P priority projectId st = Some (st, Inr \<lparr>success = 0, failed = 0, errors = []\<rparr>)"
  using assms by (simp add: trackKeywordsByPriority_def)

lemma ten_due: "getKeywordsToTrack ''high'' None ten_tracker = ten_keywords"
  by (simp add: getKeywordsToTrack_def ten_tracker_def ten_keywords_def example_keyword_def
      order_by_search_volume_desc_def priority_rank_def Let_def)

lemma ten_keys: "distinct (map cacheKey ten_keywords)"
  by (simp add: ten_keywords_def example_keyword_def cacheKey_def)

lemma ten_errors: "map fst (lookup_errors failing_lookup ten_keywords) = [''kw3'', ''kw6'', ''kw9'']"
  by (simp add: lookup_errors_def failing_lookup_def ten_keywords_def example_keyword_def)

section \<open>Claims about the tracking invocation\<close>

text \<open>
  Claim C1. When 3 of 10 keyword lookups fail with a provider error, the closed sync log
  row should record 7 succeeded and 3 failed. \<^verbatim>\<open>trackKeywordBatch\<close> catches every
  error of a lookup itself and never throws, so the \<^verbatim>\<open>catch\<close> of
  \<^verbatim>\<open>trackKeywordsByPriority\<close> that counts failures is never entered and every batch is
  counted as succeeded in full. On the ten keywords of \<open>ten_tracker\<close>, with a provider
  failing on three of them, the invocation returns and closes its row as completed, but
  the row and the returned counts say 10 succeeded and 0 failed; the three failures are
  recorded in \<^verbatim>\<open>stats.errors\<close> only.
\<close>

theorem failed_lookups_counted_as_success:
  "\<exists>st' res. trackKeywordsByPriority (\<lambda>n. failing_lookup) ''high'' None ten_tracker = Some (st', Inr res) \<and>
      success res = 10 \<and> failed res = 0 \<and> errors res = [] \<and>
      map (\<lambda>r. (sl_keywords_processed r, sl_keywords_success r, sl_keywords_failed r, sl_status r))
        (sync_log st') = [(10, Some 10, Some 0, Completed)] \<and>
      map fst (stat_errors (stats st')) = [''kw3'', ''kw6'', ''kw9'']"
proof -
  have lim: "apiLimits (config ten_tracker) = Some \<lparr>batchSize = 5, delayBetweenBatches = 1000\<rparr>"
    by (simp add: ten_tracker_def new_tracker_def example_config_def)
  have pos: "0 < batchSize \<lparr>batchSize = 5, delayBetweenBatches = 1000\<rparr>" by simp
  have ne: "getKeywordsToTrack ''high'' None ten_tracker \<noteq> []"
    by (simp add: ten_due ten_keywords_def)
  have len: "length ten_keywords = 10" by (simp add: ten_keywords_def)
  have init: "sync_log ten_tracker = []" "sync_log_seq ten_tracker = 0"
    "stat_errors (stats ten_tracker) = []" "cache ten_tracker = Map.empty"
    "tracked_keywords ten_tracker = ten_keywords"
    by (simp_all add: ten_tracker_def new_tracker_def)
  from run_completes [OF lim pos ne, of "\<lambda>n. failing_lookup"]
  obtain st' res t where run:
    "trackKeywordsByPriority (\<lambda>n. failing_lookup) ''high'' None ten_tracker = Some (st', Inr res)"
    "success res = 10" "failed res = 0" "errors res = []"
    "map (\<lambda>r. (sl_keywords_processed r, sl_keywords_success r, sl_keywords_failed r, sl_status r))
        (sync_log st') = [(10, Some 10, Some 0, Completed)]"
    by (auto simp: ten_due len init)
  have "stat_errors (stats st') = stat_errors (stats ten_tracker) @ lookup_errors failing_lookup ten_keywords"
    using run_cold_errors [OF lim pos ne _ _ _ run(1)]
    by (simp add: ten_due ten_keys init)
  then have "map fst (stat_errors (stats st')) = [''kw3'', ''kw6'', ''kw9'']"
    by (simp add: init ten_errors)
  with run show ?thesis by simp
qed





text \<open>
  Claim C8, as amended. With no due keyword the invocation returns zero counts at once and
  leaves the tracker as it was: no batch, no provider call (\<^verbatim>\<open>stats.apiCallsMade\<close> is
  unchanged), and no row of \<^verbatim>\<open>sync_log\<close> is created, since the return comes before
  \<^verbatim>\<open>createSyncLog\<close>.
\<close>

theorem empty_due_list_no_op:
  assumes "getKeywordsToTrack priority projectId st = []"
  shows "trackKeywordsByPriority P priority projectId st =
           Some (st, Inr \<lparr>success = 0, failed = 0, errors = []\<rparr>)"
  using assms by (rule run_empty)

text \<open>A fresh tracker has no keywords at all.\<close>

theorem empty_due_list_no_op_witness:
  "getKeywordsToTrack ''high'' None (new_tracker example_config) = [] \<and>
   trackKeywordsByPriority steady_provider ''high'' None (new_tracker example_config) =
     Some (new_tracker example_config, Inr \<lparr>success = 0, failed = 0, errors = []\<rparr>)"
proof -
  have e: "getKeywordsToTrack ''high'' None (new_tracker example_config) = []"
    by (simp add: getKeywordsToTrack_def new_tracker_def order_by_search_volume_desc_def)
  from empty_due_list_no_op [OF e, of steady_provider] e show ?thesis by simp
qed

text \<open>
  Claim C8 as stated fails in its last part: after an invocation with an empty due list
  the sync log of a fresh tracker is still empty, so no SyncRun was opened or closed.
\<close>

theorem empty_due_list_opens_no_sync_run:
  "map_option (sync_log \<circ> fst)
     (trackKeywordsByPriority steady_provider ''high'' None (new_tracker example_config)) = Some []"
  by (simp add: trackKeywordsByPriority_def getKeywordsToTrack_def new_tracker_def
      order_by_search_volume_desc_def)

section \<open>Claims about the cache\<close>







section \<open>Claims about the alert engine\<close>

lemma due_alert_createAlert [simp]: "due_alert (createAlert k t pc ch st) = due_alert st"
  by (rule ext) (simp add: due_alert_def cong: option.case_cong)



















section \<open>Claims about the import of keywords\<close>

lemma upsert_conflict:
  assumes "tk_check p" and "old \<in> set (tracked_keywords st)" and "tk_conflict p old"
  shows "\<exists>i. upsert_tracked_keyword p st =
           (st\<lparr>tracked_keywords_seq := tracked_keywords_seq st + 1,
               tracked_keywords :=
                 map (\<lambda>r. if tk_conflict p r
                           then r\<lparr>tk_priority := Some (p_priority p),
                                  tk_search_volume := p_search_volume p,
                                  tk_target_position := p_target_position p,
                                  tk_tracking_frequency := Some (p_tracking_frequency p),
                                  tk_updated_at := clock st\<rparr>
                           else r) (tracked_keywords st)\<rparr>,
            Inr (i, False)) \<and>
           (\<exists>r\<in>set (tracked_keywords st). tk_id r = i \<and> tk_conflict p r)"
proof -
  from assms(2,3) have "filter (tk_conflict p) (tracked_keywords st) \<noteq> []"
    by (auto simp: filter_empty_conv)
  then obtain r rs where f: "filter (tk_conflict p) (tracked_keywords st) = r # rs"
    by (cases "filter (tk_conflict p) (tracked_keywords st)") auto
  then have "r \<in> set (filter (tk_conflict p) (tracked_keywords st))" by simp
  then have r: "r \<in> set (tracked_keywords st)" "tk_conflict p r" by auto
  show ?thesis
    using assms(1) f r by (auto simp: upsert_tracked_keyword_def Let_def)
qed

lemma upsert_no_conflict:
  assumes "tk_check p" and "\<forall>r\<in>set (tracked_keywords st). \<not> tk_conflict p r"
  shows "upsert_tracked_keyword p st =
           (st\<lparr>tracked_keywords_seq := tracked_keywords_seq st + 1,
               tracked_keywords := tracked_keywords st @
                 [\<lparr>tk_id = tracked_keywords_seq st + 1,
                   tk_keyword = p_keyword p,
                   tk_project_id = p_project_id p,
                   tk_project_name = Some (p_project_name p),
                   tk_priority = Some (p_priority p),
                   tk_search_volume = p_search_volume p,
                   tk_target_position = p_target_position p,
                   tk_tracking_frequency = Some (p_tracking_frequency p),
                   tk_location_code = Some (p_location_code p),
                   tk_location_name = Some (p_location_name p),
                   tk_device = Some (p_device p),
                   tk_is_active = Some (p_is_active p),
                   tk_created_at = clock st,
                   tk_updated_at = clock st\<rparr>]\<rparr>,
            Inr (tracked_keywords_seq st + 1, True))"
proof -
  from assms(2) have "filter (tk_conflict p) (tracked_keywords st) = []"
    by (simp add: filter_empty_conv)
  then show ?thesis
    using assms(1) by (simp add: upsert_tracked_keyword_def Let_def)
qed

lemma upsert_check_fails:
  "\<not> tk_check p \<Longrightarrow> snd (upsert_tracked_keyword p st) = Inl (StorageError ''violates check constraint'')"
  by (simp add: upsert_tracked_keyword_def Let_def)

lemma in_set_mapI: "x \<in> set xs \<Longrightarrow> f x \<in> set (map f xs)"
  by simp

lemma tk_conflict_updated [simp]:
  "tk_conflict p (r\<lparr>tk_priority := a, tk_search_volume := b, tk_target_position := c,
                    tk_tracking_frequency := d, tk_updated_at := e\<rparr>) = tk_conflict p r"
  by (simp add: tk_conflict_def)



lemma import_params_frequency:
  "p_tracking_frequency (import_params cfg pid projectData priority kw) =
     (if truthy (kw_trackingFrequency kw) \<or> priority = ''high'' then ''daily'' else ''weekly'')"
  by (simp add: import_params_def)

lemma upsert_written_row:
  assumes "upsert_tracked_keyword p st = (st', Inr (i, ins))"
  shows "\<exists>r\<in>set (tracked_keywords st'). tk_id r = i \<and> tk_keyword r = p_keyword p \<and>
           tk_project_id r = p_project_id p \<and> tk_tracking_frequency r = Some (p_tracking_frequency p)"
proof (cases "\<exists>old\<in>set (tracked_keywords st). tk_conflict p old")
  case True
  then obtain old where old: "old \<in> set (tracked_keywords st)" "tk_conflict p old" by blast
  have chk: "tk_check p"
    using assms upsert_check_fails [of p st] by (cases "tk_check p") auto
  let ?upd = "\<lambda>r. if tk_conflict p r
                   then r\<lparr>tk_priority := Some (p_priority p),
                          tk_search_volume := p_search_volume p,
                          tk_target_position := p_target_position p,
                          tk_tracking_frequency := Some (p_tracking_frequency p),
                          tk_updated_at := clock st\<rparr>
                   else r"
  from upsert_conflict [OF chk old] assms obtain r where
    rows: "tracked_keywords st' = map ?upd (tracked_keywords st)"
    and r: "r \<in> set (tracked_keywords st)" "tk_id r = i" "tk_conflict p r"
    by auto
  from r(1) have "?upd r \<in> set (map ?upd (tracked_keywords st))" by (rule in_set_mapI)
  moreover have "tk_id (?upd r) = i" "tk_keyword (?upd r) = p_keyword p"
    "tk_project_id (?upd r) = p_project_id p"
    "tk_tracking_frequency (?upd r) = Some (p_tracking_frequency p)"
    using r(2,3) by (simp_all add: tk_conflict_def)
  ultimately show ?thesis unfolding rows by blast
next
  case False
  have chk: "tk_check p"
    using assms upsert_check_fails [of p st] by (cases "tk_check p") auto
  from False have "\<forall>r\<in>set (tracked_keywords st). \<not> tk_conflict p r" by blast
  from upsert_no_conflict [OF chk this] assms show ?thesis by auto
qed

lemma upsert_rows:
  assumes "upsert_tracked_keyword p st = (st', Inr x)"
  shows "\<forall>r\<in>set (tracked_keywords st').
           r \<in> set (tracked_keywords st) \<or> tk_tracking_frequency r = Some (p_tracking_frequency p)"
proof (cases "\<exists>old\<in>set (tracked_keywords st). tk_conflict p old")
  case True
  then obtain old where old: "old \<in> set (tracked_keywords st)" "tk_conflict p old" by blast
  have chk: "tk_check p"
    using assms upsert_check_fails [of p st] by (cases "tk_check p") auto
  from upsert_conflict [OF chk old] assms show ?thesis by auto
next
  case False
  have chk: "tk_check p"
    using assms upsert_check_fails [of p st] by (cases "tk_check p") auto
  from False have "\<forall>r\<in>set (tracked_keywords st). \<not> tk_conflict p r" by blast
  from upsert_no_conflict [OF chk this] assms show ?thesis by auto
qed

lemma daily_or_weekly_since_refl: "daily_or_weekly_since st st"
  by (simp add: daily_or_weekly_since_def list_all_iff)

lemma daily_or_weekly_since_trans:
  "daily_or_weekly_since st st1 \<Longrightarrow> daily_or_weekly_since st1 st2 \<Longrightarrow> daily_or_weekly_since st st2"
  by (auto simp: daily_or_weekly_since_def list_all_iff)

lemma upsert_import_step:
  assumes "upsert_tracked_keyword (import_params cfg pid projectData priority kw) st = (st', Inr x)"
  shows "daily_or_weekly_since st st'"
  using upsert_rows [OF assms]
  by (auto simp: daily_or_weekly_since_def list_all_iff import_params_frequency split: if_splits)

lemma import_keywords_rows:
  "import_keywords pid projectData priority kws st cnt = (st', Inr c) \<Longrightarrow> daily_or_weekly_since st st'"
proof (induction kws arbitrary: st cnt)
  case Nil
  then show ?case by (simp add: daily_or_weekly_since_refl)
next
  case (Cons kw kws)
  obtain st1 r where u: "upsert_tracked_keyword (import_params (config st) pid projectData priority kw) st = (st1, r)"
    by (cases "upsert_tracked_keyword (import_params (config st) pid projectData priority kw) st")
  show ?case
  proof (cases r)
    case (Inl e)
    with Cons.prems u show ?thesis by simp
  next
    case (Inr x)
    obtain i ins where x: "x = (i, ins)" by (cases x)
    from Cons.prems u Inr x
    have "import_keywords pid projectData priority kws st1
            (if ins then (fst cnt + 1, snd cnt) else (fst cnt, snd cnt + 1)) = (st', Inr c)"
      by simp
    from Cons.IH [OF this] upsert_import_step [OF u [unfolded Inr]]
    show ?thesis by (rule daily_or_weekly_since_trans [rotated])
  qed
qed

lemma import_priorities_rows:
  "import_priorities pid projectData ps st cnt = (st', Inr c) \<Longrightarrow> daily_or_weekly_since st st'"
proof (induction ps arbitrary: st cnt)
  case Nil
  then show ?case by (simp add: daily_or_weekly_since_refl)
next
  case (Cons a ps)
  obtain priority kws where a: "a = (priority, kws)" by (cases a)
  obtain st1 r where u: "import_keywords pid projectData priority kws st cnt = (st1, r)"
    by (cases "import_keywords pid projectData priority kws st cnt")
  show ?case
  proof (cases r)
    case (Inl e)
    with Cons.prems u a show ?thesis by simp
  next
    case (Inr c1)
    from Cons.prems u Inr a have "import_priorities pid projectData ps st1 c1 = (st', Inr c)"
      by simp
    from Cons.IH [OF this] import_keywords_rows [OF u [unfolded Inr]]
    show ?thesis by (rule daily_or_weekly_since_trans [rotated])
  qed
qed

lemma import_projects_rows:
  "import_projects projs st cnt = (st', Inr c) \<Longrightarrow> daily_or_weekly_since st st'"
proof (induction projs st cnt rule: import_projects.induct)
  case (1 st cnt)
  then show ?case by (simp add: daily_or_weekly_since_refl)
next
  case (2 pid rest st cnt)
  then show ?case by simp
next
  case (3 pid projectData rest st cnt)
  obtain st1 r where u: "import_priorities pid projectData (proj_keywords projectData) st cnt = (st1, r)"
    by (cases "import_priorities pid projectData (proj_keywords projectData) st cnt")
  show ?case
  proof (cases r)
    case (Inl e)
    with "3.prems" u show ?thesis by simp
  next
    case (Inr c1)
    from "3.prems" u Inr have s: "import_projects rest st1 c1 = (st', Inr c)" by simp
    have "daily_or_weekly_since st1 st'"
      using "3.IH" u Inr s by fastforce
    with import_priorities_rows [OF u [unfolded Inr]]
    show ?thesis by (rule daily_or_weekly_since_trans)
  qed
qed

lemma importKeywordsFromConfig_rows:
  "importKeywordsFromConfig projectId st = (st', Inr c) \<Longrightarrow> daily_or_weekly_since st st'"
  by (auto simp: importKeywordsFromConfig_def Let_def split: prod.splits sum.splits
      dest: import_projects_rows)

lemma import_params_fields:
  "p_keyword (import_params cfg pid projectData priority kw) = kw_keyword kw"
  "p_project_id (import_params cfg pid projectData priority kw) = pid"
  by (simp_all add: import_params_def)

text \<open>
  Claim C9. The frequency parameter that the import builds for a keyword is \<^verbatim>\<open>daily\<close>
  when the keyword's \<^verbatim>\<open>trackingFrequency\<close> is truthy or the priority is \<^verbatim>\<open>high\<close>, and
  \<^verbatim>\<open>weekly\<close> otherwise; a keyword that asks for \<^verbatim>\<open>monthly\<close> gets \<^verbatim>\<open>daily\<close>. When the
  statement succeeds, the row whose id it returns is the keyword's and stores that
  frequency. After a successful import every row of the table is a row that was there
  before or stores \<^verbatim>\<open>daily\<close> or \<^verbatim>\<open>weekly\<close>.
\<close>

theorem imported_frequency_daily_or_weekly:
  "p_tracking_frequency (import_params cfg pid projectData priority kw) =
     (if truthy (kw_trackingFrequency kw) \<or> priority = ''high'' then ''daily'' else ''weekly'') \<and>
   p_tracking_frequency (import_params cfg pid projectData priority
     (kw\<lparr>kw_trackingFrequency := JStr ''monthly''\<rparr>)) = ''daily'' \<and>
   (upsert_tracked_keyword (import_params cfg pid projectData priority kw) st = (st1, Inr (i, ins)) \<longrightarrow>
      (\<exists>r\<in>set (tracked_keywords st1). tk_id r = i \<and> tk_keyword r = kw_keyword kw \<and>
         tk_project_id r = pid \<and>
         tk_tracking_frequency r =
           Some (if truthy (kw_trackingFrequency kw) \<or> priority = ''high'' then ''daily'' else ''weekly''))) \<and>
   (importKeywordsFromConfig projectId st = (st', Inr cnt) \<longrightarrow>
      (\<forall>r\<in>set (tracked_keywords st').
         r \<in> set (tracked_keywords st) \<or> tk_tracking_frequency r = Some ''daily'' \<or>
         tk_tracking_frequency r = Some ''weekly''))"
proof (intro conjI impI)
  show "p_tracking_frequency (import_params cfg pid projectData priority kw) =
     (if truthy (kw_trackingFrequency kw) \<or> priority = ''high'' then ''daily'' else ''weekly'')"
    by (rule import_params_frequency)
  show "p_tracking_frequency (import_params cfg pid projectData priority
     (kw\<lparr>kw_trackingFrequency := JStr ''monthly''\<rparr>)) = ''daily''"
    by (simp add: import_params_frequency)
next
  assume "upsert_tracked_keyword (import_params cfg pid projectData priority kw) st = (st1, Inr (i, ins))"
  from upsert_written_row [OF this]
  show "\<exists>r\<in>set (tracked_keywords st1). tk_id r = i \<and> tk_keyword r = kw_keyword kw \<and>
         tk_project_id r = pid \<and>
         tk_tracking_frequency r =
           Some (if truthy (kw_trackingFrequency kw) \<or> priority = ''high'' then ''daily'' else ''weekly'')"
    by (simp only: import_params_fields import_params_frequency)
next
  assume "importKeywordsFromConfig projectId st = (st', Inr cnt)"
  from importKeywordsFromConfig_rows [OF this]
  show "\<forall>r\<in>set (tracked_keywords st').
         r \<in> set (tracked_keywords st) \<or> tk_tracking_frequency r = Some ''daily'' \<or>
         tk_tracking_frequency r = Some ''weekly''"
    by (simp add: daily_or_weekly_since_def list_all_iff)
qed

lemma import_example:
  "snd (importKeywordsFromConfig None import_tracker) = Inr (3, 0)"
  "map (\<lambda>r. (tk_keyword r, tk_priority r, tk_tracking_frequency r))
     (tracked_keywords (fst (importKeywordsFromConfig None import_tracker))) =
     [(''best coffee'', Some ''high'', Some ''daily''),
      (''tea'', Some ''low'', Some ''daily''),
      (''cocoa'', Some ''low'', Some ''weekly'')]"
  by (simp_all add: importKeywordsFromConfig_def import_tracker_def import_config_def new_tracker_def
      example_config_def import_params_def upsert_tracked_keyword_def tk_check_def tk_conflict_def
      or_null_def Let_def)

text \<open>
  The import of \<open>import_config\<close> into an empty table: the keyword of high priority is
  daily, the keyword of low priority that asks for monthly is daily too, and the one that
  asks for nothing is weekly.
\<close>

theorem imported_frequency_daily_or_weekly_witness:
  "importKeywordsFromConfig None import_tracker =
     (fst (importKeywordsFromConfig None import_tracker), Inr (3, 0)) \<and>
   tracked_keywords import_tracker = [] \<and>
   map (\<lambda>r. (tk_keyword r, tk_priority r, tk_tracking_frequency r))
     (tracked_keywords (fst (importKeywordsFromConfig None import_tracker))) =
     [(''best coffee'', Some ''high'', Some ''daily''),
      (''tea'', Some ''low'', Some ''daily''),
      (''cocoa'', Some ''low'', Some ''weekly'')] \<and>
   list_all (\<lambda>r. tk_tracking_frequency r = Some ''daily'' \<or> tk_tracking_frequency r = Some ''weekly'')
     (tracked_keywords (fst (importKeywordsFromConfig None import_tracker)))"
proof -
  have run: "importKeywordsFromConfig None import_tracker =
     (fst (importKeywordsFromConfig None import_tracker), Inr (3, 0))"
    using import_example(1) by (simp add: prod_eq_iff)
  have empty: "tracked_keywords import_tracker = []"
    by (simp add: import_tracker_def new_tracker_def)
  from imported_frequency_daily_or_weekly
    [where projectId = None and st = import_tracker
       and st' = "fst (importKeywordsFromConfig None import_tracker)" and cnt = "(3, 0)"]
    run
  have "\<forall>r\<in>set (tracked_keywords (fst (importKeywordsFromConfig None import_tracker))).
          r \<in> set (tracked_keywords import_tracker) \<or> tk_tracking_frequency r = Some ''daily'' \<or>
          tk_tracking_frequency r = Some ''weekly''"
    by blast
  then have "list_all (\<lambda>r. tk_tracking_frequency r = Some ''daily'' \<or> tk_tracking_frequency r = Some ''weekly'')
     (tracked_keywords (fst (importKeywordsFromConfig None import_tracker)))"
    by (simp add: empty list_all_iff)
  with run empty import_example(2) show ?thesis by simp
qed

end
